theory Spec2Isabelle
  imports Main "HOL-Library.Word"
begin

section \<open>The command line client evtc: programs/evtc/main.cpp\<close>

text \<open>
  The client builds actions from command arguments, puts them in a transaction, binds the
  transaction to the chain (expiration, reference block), has it signed by the wallet
  service and pushes it to the node. Everything the client does beyond computing a value
  is explicit here: an exception is the left summand of a sum, every HTTP request and
  every line printed is an event appended to a log, and the two remote services, the file
  system and the conversions of the libraries (fc, chain types) are fields of one record
  of parameters.
\<close>

subsection \<open>fc::variant and exceptions\<close>

text \<open>
  \<^verbatim>\<open>fc::variant\<close>, the JSON value of every request and response. The constructors carry
  the names of \<^verbatim>\<open>fc::variant::type_id\<close>; doubles and blobs are not used by the code
  modelled here.
\<close>

datatype variant =
    null_type
  | int64_type int
  | uint64_type nat
  | bool_type bool
  | string_type string
  | array_type "variant list"
  | object_type "(string \<times> variant) list"

text \<open>
  The exceptions the client raises or receives. \<open>system_error\<close> is
  \<^verbatim>\<open>boost::system::system_error\<close> (the connection failed); \<open>fc_exception\<close> stands for
  any \<^verbatim>\<open>fc::exception\<close> raised inside a library (a JSON parse error, a failed conversion,
  an error status of a service); \<open>assert_exception\<close> is what \<^verbatim>\<open>FC_ASSERT\<close> throws,
  with its message. The exceptions of evt/chain/exceptions.hpp carry their message format
  and, for \<open>invalid_ref_block_exception\<close>, the value of \<^verbatim>\<open>${block_num_or_id}\<close>.
\<close>

datatype exception =
    system_error string
  | connection_exception string
  | fc_exception string
  | assert_exception string
  | invalid_ref_block_exception string string
  | transaction_type_exception string
  | permission_type_exception string
  | group_type_exception string

text \<open>\<^verbatim>\<open>variant::operator[](const char*)\<close>: the first entry of an object with that key.\<close>

fun variant_index :: "variant \<Rightarrow> string \<Rightarrow> exception + variant" where
  "variant_index (object_type kvs) k =
     (case map_of kvs k of
        None \<Rightarrow> Inl (fc_exception ''key not found'')
      | Some v \<Rightarrow> Inr v)"
| "variant_index _ k = Inl (fc_exception ''bad cast'')"

text \<open>Sequencing of computations that may throw, and the catch-and-replace of a try block.\<close>

definition result_bind :: "exception + 'a \<Rightarrow> ('a \<Rightarrow> exception + 'b) \<Rightarrow> exception + 'b" where
  "result_bind r f = (case r of Inl e \<Rightarrow> Inl e | Inr x \<Rightarrow> f x)"

text \<open>
  Modelled from the spec: the macro \<^verbatim>\<open>EVT_RETHROW_EXCEPTIONS(exception_type, FORMAT, ...)\<close>
  is defined in evt/chain/exceptions.hpp, which is not under src/. Following the spec
  (4.2: failure to parse fails with a Permission-Format Error; 4.4: if block resolution
  fails, fails with an Invalid-Reference-Block Error carrying the caller-supplied
  identifier), whatever the try block throws is replaced by the named exception.
\<close>

definition EVT_RETHROW_EXCEPTIONS :: "exception \<Rightarrow> exception + 'a \<Rightarrow> exception + 'a" where
  "EVT_RETHROW_EXCEPTIONS new_exception r =
     (case r of Inl e \<Rightarrow> Inl new_exception | Inr x \<Rightarrow> Inr x)"

text \<open>
  \<^verbatim>\<open>FC_CAPTURE_AND_RETHROW\<close> (fc, not under src/) adds the captured values to the log
  of the exception and throws it again: the exception stays the one it was.
\<close>

definition FC_CAPTURE_AND_RETHROW :: "exception + 'a \<Rightarrow> exception + 'a" where
  "FC_CAPTURE_AND_RETHROW r = r"

subsection \<open>Chain types\<close>

text \<open>
  Modelled from the spec: the types of evt/chain and fc that main.cpp uses are declared
  outside src/. They are given here as far as the client reads or writes them (spec 3,
  the data model). A key is its 33 bytes of data, and the key \<^verbatim>\<open>public_key_type()\<close>
  is the one whose bytes are all zero. Names, keys of actions and group ids are 128 bit
  values, block ids 256 bit values. Times count seconds (spec 4.4:
  \<^verbatim>\<open>expiration = head_block_time + configured_expiration_seconds\<close>).
\<close>

type_synonym public_key_type = "8 word list"
type_synonym signature_type = "8 word list"
type_synonym name128 = "128 word"
type_synonym domain_key = "128 word"
type_synonym group_id = "128 word"
type_synonym block_id_type = "256 word"
type_synonym time_point_sec = int

definition public_key_type_default :: public_key_type where
  "public_key_type_default = replicate 33 0"

datatype authorizer_ref = account_ref public_key_type | group_ref group_id

definition set_account :: "authorizer_ref \<Rightarrow> public_key_type \<Rightarrow> authorizer_ref" where
  "set_account r pkey = account_ref pkey"

definition set_group :: "authorizer_ref \<Rightarrow> group_id \<Rightarrow> authorizer_ref" where
  "set_group r gid = group_ref gid"

record authorizer_weight =
  ref :: authorizer_ref
  weight :: "32 word"

definition authorizer_weight_default :: authorizer_weight where
  "authorizer_weight_default = \<lparr>ref = account_ref public_key_type_default, weight = 0\<rparr>"

record permission_def =
  name :: string
  threshold :: "32 word"
  authorizers :: "authorizer_weight list"

definition permission_def_default :: permission_def where
  "permission_def_default = \<lparr>name = [], threshold = 0, authorizers = []\<rparr>"

text \<open>A group: its key and a tree of weighted nodes, a key at each leaf.\<close>

datatype group_node =
    group_leaf public_key_type "32 word"
  | group_branch "32 word" "32 word" "group_node list"

record group_def =
  group_key :: public_key_type
  group_root :: group_node

text \<open>
  Modelled from the spec: the payloads of the actions are declared in
  evt/chain/contracts/types.hpp, not under src/; their fields are those that main.cpp
  assigns. The fields are prefixed with the name of the variable that holds the structure
  in the source (\<^verbatim>\<open>nd.name\<close> is \<open>nd_name\<close>). A permission of \<^verbatim>\<open>updatedomain\<close> is
  optional: a default-constructed \<^verbatim>\<open>updatedomain\<close> has none of its three permissions
  set, and lines 260 to 268 assign only those that were given.
\<close>

record newdomain =
  nd_name :: name128
  nd_issuer :: public_key_type
  nd_issue :: permission_def
  nd_transfer :: permission_def
  nd_manage :: permission_def

record updatedomain =
  ud_name :: name128
  ud_issue :: "permission_def option"
  ud_transfer :: "permission_def option"
  ud_manage :: "permission_def option"

record updategroup =
  ug_id :: group_id
  ug_group :: group_def

datatype action_data =
    newdomain_data newdomain
  | updatedomain_data updatedomain
  | updategroup_data updategroup

text \<open>
  An action (spec 3): the resource type it is addressed to, kept as the text the client
  passes (\<^verbatim>\<open>"domain"\<close>, \<^verbatim>\<open>"group"\<close>), the key of the resource and the payload.
\<close>

record action =
  domain :: string
  key :: domain_key
  data :: action_data

record transaction =
  expiration :: time_point_sec
  reference_block :: block_id_type
  actions :: "action list"

record signed_transaction = transaction +
  signatures :: "signature_type list"

definition signed_transaction_default :: signed_transaction where
  "signed_transaction_default =
     \<lparr>expiration = 0, reference_block = 0, actions = [], signatures = []\<rparr>"

text \<open>
  Modelled from the spec: \<^verbatim>\<open>transaction::set_reference_block\<close> is defined in evt/chain,
  not under src/. Spec 4.4, step 3: \<^verbatim>\<open>reference_block\<close> is bound from the id of the block.
\<close>

definition set_reference_block :: "signed_transaction \<Rightarrow> block_id_type \<Rightarrow> signed_transaction" where
  "set_reference_block trx reference_block_id = trx\<lparr>reference_block := reference_block_id\<rparr>"

datatype compression_type = none | zlib

record get_info_results =
  head_block_time :: time_point_sec
  head_block_id :: block_id_type
  last_irreversible_block_num :: "32 word"

subsection \<open>The services, the file system and the libraries\<close>

text \<open>The paths of httpc.hpp that the code modelled here requests.\<close>

datatype api_path =
    get_info_func
  | get_block_func
  | get_required_keys
  | push_txn_func
  | push_txns_func
  | get_group_func
  | wallet_public_keys
  | wallet_sign_trx

text \<open>What the client does to the outside, in the order it does it.\<close>

datatype event =
    http_request string api_path variant
  | stdout string
  | stderr string

datatype parse_type = legacy_parser | strict_parser

text \<open>
  Everything the client calls and main.cpp does not define. \<open>http\<close> is
  \<^verbatim>\<open>evt::client::http::call(url, path, postdata)\<close>: its answer may depend on all that
  happened before (the first argument), so a service may change its state between two
  requests. \<open>is_regular_file\<close> is \<^verbatim>\<open>fc::is_regular_file\<close>: it asks the file
  system for the status of a path, and throws when the status cannot be read (a name that
  is too long, a directory that may not be searched), which is not the answer that no such
  file exists. \<open>files\<close> gives the content of every file that can be read. The other
  fields are the parsers and conversions of fc and of the chain types.
\<close>

record env =
  http :: "event list \<Rightarrow> string \<Rightarrow> api_path \<Rightarrow> variant \<Rightarrow> exception + variant"
  is_regular_file :: "string \<Rightarrow> exception + bool"
  files :: "string \<Rightarrow> string option"
  json_parse :: "parse_type \<Rightarrow> string \<Rightarrow> exception + variant"
  to_pretty_string :: "variant \<Rightarrow> string"
  name128_from_string :: "string \<Rightarrow> exception + name128"
  public_key_from_string :: "string \<Rightarrow> exception + public_key_type"
  group_id_from_string :: "string \<Rightarrow> exception + group_id"
  group_id_from_group_key :: "public_key_type \<Rightarrow> group_id"
  group_id_to_base58 :: "group_id \<Rightarrow> string"
  as_get_info_results :: "variant \<Rightarrow> exception + get_info_results"
  as_block_id_type :: "variant \<Rightarrow> exception + block_id_type"
  as_signed_transaction :: "variant \<Rightarrow> exception + signed_transaction"
  as_permission_def :: "variant \<Rightarrow> exception + permission_def"
  as_group_def :: "variant \<Rightarrow> exception + group_def"
  variant_of_transaction :: "transaction \<Rightarrow> variant"
  variant_of_signed_transaction :: "signed_transaction \<Rightarrow> variant"
  variant_of_packed_transaction :: "signed_transaction \<Rightarrow> compression_type \<Rightarrow> variant"
  variant_of_chain_id :: variant

text \<open>The global variables of main.cpp (lines 62 to 69), set by the options of a command.\<close>

record globals =
  url :: string
  wallet_url :: string
  tx_expiration :: int
  tx_ref_block_num_or_id :: string
  tx_dont_broadcast :: bool
  tx_skip_sign :: bool

definition initial_globals :: globals where
  "initial_globals =
     \<lparr>url = ''http://localhost:8888'',
      wallet_url = ''http://localhost:9999'',
      tx_expiration = 30,
      tx_ref_block_num_or_id = [],
      tx_dont_broadcast = False,
      tx_skip_sign = False\<rparr>"

subsection \<open>Permission Resolver\<close>

text \<open>\<^verbatim>\<open>get_default_permission\<close>, lines 202 to 218.\<close>

definition get_default_permission :: "env \<Rightarrow> string \<Rightarrow> public_key_type \<Rightarrow> exception + permission_def" where
  "get_default_permission env pname pkey =
     (let p = permission_def_default;
          a = authorizer_weight_default;
          p = p\<lparr>name := pname\<rparr>;
          p = p\<lparr>threshold := 1\<rparr>
      in result_bind
           (if pkey = public_key_type_default
            then result_bind (group_id_from_string env ''owner'')
                   (\<lambda>owner. Inr (a\<lparr>ref := set_group (ref a) owner, weight := 1\<rparr>))
            else Inr (a\<lparr>ref := set_account (ref a) pkey, weight := 1\<rparr>))
           (\<lambda>a. Inr (p\<lparr>authorizers := authorizers p @ [a]\<rparr>)))"

text \<open>
  \<^verbatim>\<open>json_from_file_or_string\<close>, lines 174 to 182. The regular expression is
  \<^verbatim>\<open>^[ \t]*[\{\[]\<close>: from the start of the text, spaces and tabs, then an opening brace
  or bracket. The condition of line 177 asks for the status of the file only when the
  regular expression does not match, and what that throws leaves the function.
\<close>

fun regex_search_r :: "string \<Rightarrow> bool" where
  "regex_search_r [] = False"
| "regex_search_r (c # cs) =
     (if c = CHR '' '' \<or> c = CHR 0x09 then regex_search_r cs
      else c = CHR ''{'' \<or> c = CHR ''['')"

definition json_from_string :: "env \<Rightarrow> string \<Rightarrow> parse_type \<Rightarrow> exception + variant" where
  "json_from_string env utf8_str ptype = json_parse env ptype utf8_str"

text \<open>
  Modelled from the spec: \<^verbatim>\<open>fc::json::from_file\<close> is defined in fc, not under src/.
  Spec 4.1: the string is treated as a file path to read and parse.
\<close>

definition json_from_file :: "env \<Rightarrow> string \<Rightarrow> parse_type \<Rightarrow> exception + variant" where
  "json_from_file env p ptype =
     (case files env p of
        None \<Rightarrow> Inl (fc_exception ''cannot read file'')
      | Some content \<Rightarrow> json_parse env ptype content)"

definition json_from_file_or_string :: "env \<Rightarrow> string \<Rightarrow> parse_type \<Rightarrow> exception + variant" where
  "json_from_file_or_string env file_or_str ptype =
     result_bind
       (if \<not> regex_search_r file_or_str then is_regular_file env file_or_str else Inr False)
       (\<lambda>regular.
          if regular then json_from_file env file_or_str ptype
          else json_from_string env file_or_str ptype)"

text \<open>\<^verbatim>\<open>parse_permission\<close> and \<^verbatim>\<open>parse_group\<close>, lines 184 to 200.\<close>

definition parse_permission :: "env \<Rightarrow> string \<Rightarrow> exception + permission_def" where
  "parse_permission env jsonOrFile =
     EVT_RETHROW_EXCEPTIONS (permission_type_exception ''Fail to parse Permission JSON'')
       (result_bind (json_from_file_or_string env jsonOrFile legacy_parser)
          (\<lambda>parsedPermission. as_permission_def env parsedPermission))"

definition parse_group :: "env \<Rightarrow> string \<Rightarrow> exception + group_def" where
  "parse_group env jsonOrFile =
     EVT_RETHROW_EXCEPTIONS (group_type_exception ''Fail to parse Group JSON'')
       (result_bind (json_from_file_or_string env jsonOrFile legacy_parser)
          (\<lambda>parsedGroup. as_group_def env parsedGroup))"

subsection \<open>Computations with effects\<close>

text \<open>
  A computation takes the events so far and returns its result, or the exception it
  throws, with the events extended by what it did.
\<close>

type_synonym 'a io = "event list \<Rightarrow> (exception + 'a) \<times> event list"

definition io_return :: "'a \<Rightarrow> 'a io" where
  "io_return x = (\<lambda>es. (Inr x, es))"

definition io_throw :: "exception \<Rightarrow> 'a io" where
  "io_throw e = (\<lambda>es. (Inl e, es))"

definition io_lift :: "exception + 'a \<Rightarrow> 'a io" where
  "io_lift r = (\<lambda>es. (r, es))"

definition io_bind :: "'a io \<Rightarrow> ('a \<Rightarrow> 'b io) \<Rightarrow> 'b io" where
  "io_bind m f =
     (\<lambda>es. case m es of
        (Inl e, es') \<Rightarrow> (Inl e, es')
      | (Inr x, es') \<Rightarrow> f x es')"

definition io_EVT_RETHROW_EXCEPTIONS :: "exception \<Rightarrow> 'a io \<Rightarrow> 'a io" where
  "io_EVT_RETHROW_EXCEPTIONS new_exception m =
     (\<lambda>es. case m es of (r, es') \<Rightarrow> (EVT_RETHROW_EXCEPTIONS new_exception r, es'))"

definition print_stdout :: "string \<Rightarrow> unit io" where
  "print_stdout s = (\<lambda>es. (Inr (), es @ [stdout s]))"

definition endl :: string where
  "endl = [CHR 0x0A]"

text \<open>One request to a service: the answer of the service, and the request in the log.\<close>

definition http_call :: "env \<Rightarrow> string \<Rightarrow> api_path \<Rightarrow> variant \<Rightarrow> variant io" where
  "http_call env server_url path postdata =
     (\<lambda>es. (http env es server_url path postdata,
            es @ [http_request server_url path postdata]))"

text \<open>
  \<^verbatim>\<open>call(url, path, v)\<close>, lines 88 to 102: a connection failure is reported on the
  error stream, for the two services the client knows, and becomes a
  \<^verbatim>\<open>connection_exception\<close>.
\<close>

definition call :: "env \<Rightarrow> globals \<Rightarrow> string \<Rightarrow> api_path \<Rightarrow> variant \<Rightarrow> variant io" where
  "call env g u path v =
     (\<lambda>es. case http_call env u path v es of
        (Inl (system_error what), es') \<Rightarrow>
          (Inl (connection_exception what),
           if u = url g
           then es' @ [stderr (''Failed to connect to evtd at '' @ u @ ''; is evtd running?'')]
           else if u = wallet_url g
           then es' @ [stderr (''Failed to connect to evtwd at '' @ u @ ''; is evtwd running?'')]
           else es')
      | (r, es') \<Rightarrow> (r, es'))"

text \<open>\<^verbatim>\<open>call(path, v)\<close>, lines 104 to 106: the node at the global \<^verbatim>\<open>url\<close>.\<close>

definition call_node :: "env \<Rightarrow> globals \<Rightarrow> api_path \<Rightarrow> variant \<Rightarrow> variant io" where
  "call_node env g path v = call env g (url g) path v"

text \<open>\<^verbatim>\<open>get_info\<close>, lines 108 to 110.\<close>

definition get_info :: "env \<Rightarrow> globals \<Rightarrow> get_info_results io" where
  "get_info env g =
     io_bind (call env g (url g) get_info_func null_type)
       (\<lambda>v. io_lift (as_get_info_results env v))"

subsection \<open>Remote Signer\<close>

text \<open>
  \<^verbatim>\<open>sign_transaction\<close>, lines 112 to 123. The first request has two arguments, both
  strings: it is \<^verbatim>\<open>evt::client::http::call\<close> itself, with no data, not the template of
  line 88. The result is the transaction the wallet answers with.
\<close>

definition sign_transaction :: "env \<Rightarrow> globals \<Rightarrow> signed_transaction \<Rightarrow> signed_transaction io" where
  "sign_transaction env g trx =
     io_bind (http_call env (wallet_url g) wallet_public_keys null_type) (\<lambda>public_keys.
     let get_arg = object_type
           [(''transaction'', variant_of_transaction env (transaction.truncate trx)),
            (''available_keys'', public_keys)] in
     io_bind (call env g (url g) get_required_keys get_arg) (\<lambda>required_keys.
     io_bind (io_lift (variant_index required_keys ''required_keys'')) (\<lambda>keys.
     let sign_args = array_type
           [variant_of_signed_transaction env trx, keys, variant_of_chain_id env] in
     io_bind (call env g (wallet_url g) wallet_sign_trx sign_args) (\<lambda>signed_trx.
     io_lift (as_signed_transaction env signed_trx)))))"

subsection \<open>Transaction Assembler, signing and broadcast: push_transaction\<close>

text \<open>
  \<^verbatim>\<open>push_transaction\<close>, lines 125 to 152, in the three parts the spec names. Lines 126 to
  141: expiration and reference block (the try block of lines 132 to 140 is
  \<open>ref_block_id\<close>).
\<close>

definition ref_block_id :: "env \<Rightarrow> globals \<Rightarrow> get_info_results \<Rightarrow> block_id_type io" where
  "ref_block_id env g info =
     io_EVT_RETHROW_EXCEPTIONS
       (invalid_ref_block_exception ''Invalid reference block num or id: ${block_num_or_id}''
          (tx_ref_block_num_or_id g))
       (io_bind
          (if tx_ref_block_num_or_id g \<noteq> []
           then call_node env g get_block_func
                  (object_type [(''block_num_or_id'', string_type (tx_ref_block_num_or_id g))])
           else call_node env g get_block_func
                  (object_type [(''block_num_or_id'',
                     uint64_type (unat (last_irreversible_block_num info)))]))
          (\<lambda>ref_block.
             io_lift (result_bind (variant_index ref_block ''id'') (as_block_id_type env))))"

definition transaction_assembler :: "env \<Rightarrow> globals \<Rightarrow> signed_transaction \<Rightarrow> signed_transaction io" where
  "transaction_assembler env g trx =
     io_bind (get_info env g) (\<lambda>info.
     let trx = trx\<lparr>expiration := head_block_time info + tx_expiration g\<rparr>;
         trx = set_reference_block trx (head_block_id info) in
     io_bind (ref_block_id env g info) (\<lambda>ref_block_id.
     io_return (set_reference_block trx ref_block_id)))"

text \<open>Lines 143 to 145.\<close>

definition remote_signer :: "env \<Rightarrow> globals \<Rightarrow> signed_transaction \<Rightarrow> signed_transaction io" where
  "remote_signer env g trx =
     (if \<not> tx_skip_sign g then sign_transaction env g trx else io_return trx)"

text \<open>Lines 147 to 151.\<close>

definition broadcaster :: "env \<Rightarrow> globals \<Rightarrow> signed_transaction \<Rightarrow> compression_type \<Rightarrow> variant io" where
  "broadcaster env g trx compression =
     (if \<not> tx_dont_broadcast g
      then call_node env g push_txn_func (variant_of_packed_transaction env trx compression)
      else io_return (variant_of_signed_transaction env trx))"

definition push_transaction :: "env \<Rightarrow> globals \<Rightarrow> signed_transaction \<Rightarrow> compression_type \<Rightarrow> variant io" where
  "push_transaction env g trx compression =
     io_bind (transaction_assembler env g trx) (\<lambda>trx.
     io_bind (remote_signer env g trx) (\<lambda>trx.
     broadcaster env g trx compression))"

text \<open>\<^verbatim>\<open>push_actions\<close> and \<^verbatim>\<open>send_actions\<close>, lines 154 to 163.\<close>

definition push_actions :: "env \<Rightarrow> globals \<Rightarrow> action list \<Rightarrow> compression_type \<Rightarrow> variant io" where
  "push_actions env g acts compression =
     push_transaction env g (signed_transaction_default\<lparr>actions := acts\<rparr>) compression"

definition send_actions :: "env \<Rightarrow> globals \<Rightarrow> action list \<Rightarrow> compression_type \<Rightarrow> unit io" where
  "send_actions env g acts compression =
     io_bind (push_actions env g acts compression)
       (\<lambda>v. print_stdout (to_pretty_string env v @ endl))"

text \<open>\<^verbatim>\<open>create_action\<close>, lines 169 to 172.\<close>

definition create_action :: "string \<Rightarrow> domain_key \<Rightarrow> action_data \<Rightarrow> action" where
  "create_action d k v = \<lparr>domain = d, key = k, data = v\<rparr>"

subsection \<open>Action Encoder: the domain commands\<close>

text \<open>
  The arguments of \<^verbatim>\<open>struct set_domain_subcommands\<close> (lines 220 to 225), prefixed
  \<open>sd\<close>; a permission argument that is not given keeps the text \<^verbatim>\<open>default\<close>.
\<close>

record set_domain_subcommands =
  sd_name :: string
  sd_issuer :: string
  sd_issue :: string
  sd_transfer :: string
  sd_manage :: string

definition newdomain_default :: newdomain where
  "newdomain_default =
     \<lparr>nd_name = 0, nd_issuer = public_key_type_default, nd_issue = permission_def_default,
      nd_transfer = permission_def_default, nd_manage = permission_def_default\<rparr>"

definition updatedomain_default :: updatedomain where
  "updatedomain_default =
     \<lparr>ud_name = 0, ud_issue = None, ud_transfer = None, ud_manage = None\<rparr>"

text \<open>
  The callback of \<^verbatim>\<open>domain create\<close>, lines 237 to 247: the action of line 245, then
  \<^verbatim>\<open>send_actions\<close>.
\<close>

definition ndcmd_action :: "env \<Rightarrow> set_domain_subcommands \<Rightarrow> exception + action" where
  "ndcmd_action env cmd =
     (let nd = newdomain_default in
      result_bind (name128_from_string env (sd_name cmd)) (\<lambda>n.
      let nd = nd\<lparr>nd_name := n\<rparr> in
      result_bind (public_key_from_string env (sd_issuer cmd)) (\<lambda>k.
      let nd = nd\<lparr>nd_issuer := k\<rparr> in
      result_bind
        (if sd_issue cmd = ''default'' then get_default_permission env ''issue'' (nd_issuer nd)
         else parse_permission env (sd_issue cmd)) (\<lambda>p.
      let nd = nd\<lparr>nd_issue := p\<rparr> in
      result_bind
        (if sd_transfer cmd = ''default''
         then get_default_permission env ''transfer'' public_key_type_default
         else parse_permission env (sd_transfer cmd)) (\<lambda>p.
      let nd = nd\<lparr>nd_transfer := p\<rparr> in
      result_bind
        (if sd_manage cmd = ''default'' then get_default_permission env ''manage'' (nd_issuer nd)
         else parse_permission env (sd_manage cmd)) (\<lambda>p.
      let nd = nd\<lparr>nd_manage := p\<rparr> in
      Inr (create_action ''domain'' (nd_name nd) (newdomain_data nd))))))))"

definition ndcmd_callback :: "env \<Rightarrow> globals \<Rightarrow> set_domain_subcommands \<Rightarrow> unit io" where
  "ndcmd_callback env g cmd =
     io_bind (io_lift (ndcmd_action env cmd)) (\<lambda>act. send_actions env g [act] none)"

text \<open>The callback of \<^verbatim>\<open>domain update\<close>, lines 257 to 272.\<close>

definition udcmd_action :: "env \<Rightarrow> set_domain_subcommands \<Rightarrow> exception + action" where
  "udcmd_action env cmd =
     (let ud = updatedomain_default in
      result_bind (name128_from_string env (sd_name cmd)) (\<lambda>n.
      let ud = ud\<lparr>ud_name := n\<rparr> in
      result_bind
        (if sd_issue cmd \<noteq> ''default''
         then result_bind (parse_permission env (sd_issue cmd)) (\<lambda>p. Inr (ud\<lparr>ud_issue := Some p\<rparr>))
         else Inr ud) (\<lambda>ud.
      result_bind
        (if sd_transfer cmd \<noteq> ''default''
         then result_bind (parse_permission env (sd_transfer cmd))
                (\<lambda>p. Inr (ud\<lparr>ud_transfer := Some p\<rparr>))
         else Inr ud) (\<lambda>ud.
      result_bind
        (if sd_manage cmd \<noteq> ''default''
         then result_bind (parse_permission env (sd_manage cmd)) (\<lambda>p. Inr (ud\<lparr>ud_manage := Some p\<rparr>))
         else Inr ud) (\<lambda>ud.
      Inr (create_action ''domain'' (ud_name ud) (updatedomain_data ud)))))))"

definition udcmd_callback :: "env \<Rightarrow> globals \<Rightarrow> set_domain_subcommands \<Rightarrow> unit io" where
  "udcmd_callback env g cmd =
     io_bind (io_lift (udcmd_action env cmd)) (\<lambda>act. send_actions env g [act] none)"

subsection \<open>The group commands\<close>

text \<open>
  The arguments of \<^verbatim>\<open>struct set_group_subcommands\<close> (lines 326 to 329), prefixed
  \<open>sg\<close>, and of \<^verbatim>\<open>struct set_get_group_subcommand\<close> (lines 483 to 485), prefixed
  \<open>gg\<close>. An argument that is not given is the empty string.
\<close>

record set_group_subcommands =
  sg_id :: string
  sg_key :: string
  sg_json :: string

record set_get_group_subcommand =
  gg_id :: string
  gg_key :: string

definition group_id_default :: group_id where
  "group_id_default = 0"

definition updategroup_default :: updategroup where
  "updategroup_default =
     \<lparr>ug_id = group_id_default,
      ug_group = \<lparr>group_key = public_key_type_default, group_root = group_branch 0 0 []\<rparr>\<rparr>"

text \<open>
  The callback of \<^verbatim>\<open>group update\<close>, lines 357 to 381: the action of line 379, then
  \<^verbatim>\<open>send_actions\<close>.
\<close>

definition ugcmd_action :: "env \<Rightarrow> set_group_subcommands \<Rightarrow> action io" where
  "ugcmd_action env cmd =
     (let ug = updategroup_default; gid = group_id_default in
      if \<not> \<not> (sg_id cmd = [] \<and> sg_key cmd = [])
      then io_throw (assert_exception ''Must provide either id or key'')
      else
        io_bind
          (if sg_id cmd \<noteq> []
           then io_lift (FC_CAPTURE_AND_RETHROW (group_id_from_string env (sg_id cmd)))
           else io_return gid) (\<lambda>gid.
        io_bind
          (if sg_key cmd \<noteq> []
           then io_bind (io_lift (FC_CAPTURE_AND_RETHROW (public_key_from_string env (sg_key cmd))))
                  (\<lambda>k. let gid = group_id_from_group_key env k in
                       io_bind (print_stdout (''Group id: '' @ group_id_to_base58 env gid @ endl))
                         (\<lambda>u. io_return gid))
           else io_return gid) (\<lambda>gid.
        let ug = ug\<lparr>ug_id := gid\<rparr> in
        io_bind (io_lift (parse_group env (sg_json cmd))) (\<lambda>grp.
        let ug = ug\<lparr>ug_group := grp\<rparr> in
        io_return (create_action ''group'' (ug_id ug) (updategroup_data ug))))))"

definition ugcmd_callback :: "env \<Rightarrow> globals \<Rightarrow> set_group_subcommands \<Rightarrow> unit io" where
  "ugcmd_callback env g cmd =
     io_bind (ugcmd_action env cmd) (\<lambda>act. send_actions env g [act] none)"

text \<open>The callback of \<^verbatim>\<open>get group\<close>, lines 492 to 509.\<close>

definition ggcmd_callback :: "env \<Rightarrow> globals \<Rightarrow> set_get_group_subcommand \<Rightarrow> unit io" where
  "ggcmd_callback env g cmd =
     (let gid = group_id_default in
      if \<not> \<not> (gg_id cmd = [] \<and> gg_key cmd = [])
      then io_throw (assert_exception ''Must provide either id or key'')
      else
        io_bind
          (if gg_id cmd \<noteq> []
           then io_lift (FC_CAPTURE_AND_RETHROW (group_id_from_string env (gg_id cmd)))
           else io_return gid) (\<lambda>gid.
        io_bind
          (if gg_key cmd \<noteq> []
           then io_bind (io_lift (FC_CAPTURE_AND_RETHROW (public_key_from_string env (gg_key cmd))))
                  (\<lambda>k. let gid = group_id_from_group_key env k in
                       io_bind (print_stdout (''Group id: '' @ group_id_to_base58 env gid @ endl))
                         (\<lambda>u. io_return gid))
           else io_return gid) (\<lambda>gid.
        let arg = object_type [(''id'', string_type (group_id_to_base58 env gid))] in
        io_bind (call_node env g get_group_func arg) (\<lambda>v.
        print_stdout (to_pretty_string env v @ endl)))))"

subsection \<open>The push commands\<close>

text \<open>
  The callback of \<^verbatim>\<open>push transaction\<close>, lines 824 to 836. The status of the file
  is asked inside the try block of lines 826 to 832.
\<close>

definition trxSubcommand_callback :: "env \<Rightarrow> globals \<Rightarrow> string \<Rightarrow> unit io" where
  "trxSubcommand_callback env g trx_to_push =
     io_bind
       (io_lift
          (EVT_RETHROW_EXCEPTIONS (transaction_type_exception ''Fail to parse transaction JSON'')
             (result_bind (is_regular_file env trx_to_push)
                (\<lambda>regular.
                   if regular then json_from_file env trx_to_push legacy_parser
                   else json_from_string env trx_to_push legacy_parser)))) (\<lambda>trx_var.
     io_bind (io_lift (as_signed_transaction env trx_var)) (\<lambda>trx.
     io_bind (call_node env g push_txn_func (variant_of_packed_transaction env trx none))
       (\<lambda>trx_result.
     print_stdout (to_pretty_string env trx_result @ endl))))"

text \<open>The callback of \<^verbatim>\<open>push transactions\<close>, lines 841 to 848.\<close>

definition trxsSubcommand_callback :: "env \<Rightarrow> globals \<Rightarrow> string \<Rightarrow> unit io" where
  "trxsSubcommand_callback env g trxsJson =
     io_bind
       (io_lift
          (EVT_RETHROW_EXCEPTIONS (transaction_type_exception ''Fail to parse transaction JSON'')
             (json_from_string env trxsJson legacy_parser))) (\<lambda>trx_var.
     io_bind (call_node env g push_txns_func trx_var) (\<lambda>trxs_result.
     print_stdout (to_pretty_string env trxs_result @ endl)))"

subsection \<open>Reading the log\<close>

text \<open>
  The requests in a log, and among them those of the Remote Signer: the keys of the
  wallet, the required keys, the signature.
\<close>

fun is_http_request :: "event \<Rightarrow> bool" where
  "is_http_request (http_request u p v) = True"
| "is_http_request _ = False"

fun signing_request :: "event \<Rightarrow> bool" where
  "signing_request (http_request u p v) =
     (p = wallet_public_keys \<or> p = get_required_keys \<or> p = wallet_sign_trx)"
| "signing_request _ = False"


subsection \<open>A node, a wallet and a file system to run the client against\<close>

text \<open>
  A small world for concrete runs. The node knows block 5 (last irreversible, id 105) and
  block 6 (id 106); the head block is at time 1000. The file system has three regular
  files and cannot read the status of a name longer than 255 characters. The key text \<open>null_key_text\<close>
  is the text of the key whose 33 bytes are zero (the base58 of 33 zero bytes and their
  checksum, after the prefix).
\<close>

definition demo_http :: "event list \<Rightarrow> string \<Rightarrow> api_path \<Rightarrow> variant \<Rightarrow> exception + variant" where
  "demo_http es server_url path postdata =
     (case path of
        get_info_func \<Rightarrow>
          Inr (object_type
            [(''head_block_time'', uint64_type 1000),
             (''head_block_id'', uint64_type 107),
             (''last_irreversible_block_num'', uint64_type 5)])
      | get_block_func \<Rightarrow>
          (if postdata = object_type [(''block_num_or_id'', uint64_type 5)]
           then Inr (object_type [(''id'', uint64_type 105)])
           else if postdata = object_type [(''block_num_or_id'', string_type ''6'')]
           then Inr (object_type [(''id'', uint64_type 106)])
           else Inl (fc_exception ''unknown block''))
      | get_required_keys \<Rightarrow> Inr (object_type [(''required_keys'', array_type [])])
      | push_txn_func \<Rightarrow> Inr (string_type ''pushed'')
      | push_txns_func \<Rightarrow> Inr (string_type ''pushed all'')
      | get_group_func \<Rightarrow> Inr (string_type ''group'')
      | wallet_public_keys \<Rightarrow> Inr (array_type [])
      | wallet_sign_trx \<Rightarrow> Inl (fc_exception ''wallet is locked''))"

definition demo_json_parse :: "parse_type \<Rightarrow> string \<Rightarrow> exception + variant" where
  "demo_json_parse ptype s =
     (if s = ''[{},{}]'' then Inr (array_type [object_type [], object_type []])
      else if s = ''{}'' then Inr (object_type [])
      else if s = ''null'' then Inr null_type
      else Inl (fc_exception ''parse error''))"

definition demo_as_get_info_results :: "variant \<Rightarrow> exception + get_info_results" where
  "demo_as_get_info_results v =
     (case (variant_index v ''head_block_time'', variant_index v ''head_block_id'',
            variant_index v ''last_irreversible_block_num'') of
        (Inr (uint64_type t), Inr (uint64_type h), Inr (uint64_type l)) \<Rightarrow>
          Inr \<lparr>head_block_time = int t, head_block_id = of_nat h,
               last_irreversible_block_num = of_nat l\<rparr>
      | _ \<Rightarrow> Inl (fc_exception ''bad cast''))"

definition null_key_text :: string where
  "null_key_text = ''EVT1111111111111111111111111111111114T1Anm''"

definition demo_env :: env where
  "demo_env =
     \<lparr>http = demo_http,
      is_regular_file =
        (\<lambda>p. if 255 < length p then Inl (fc_exception ''File name too long'')
              else Inr (p = ''trxs.json'' \<or> p = ''[trx].json'' \<or> p = ''perm.json'')),
      files = (\<lambda>p. if p = ''trxs.json'' then Some ''[{},{}]''
                   else if p = ''[trx].json'' then Some ''{}''
                   else if p = ''perm.json'' then Some ''{}''
                   else None),
      json_parse = demo_json_parse,
      to_pretty_string = (\<lambda>v. case v of string_type s \<Rightarrow> s | _ \<Rightarrow> ''json''),
      name128_from_string =
        (\<lambda>s. if s = ''mydomain'' then Inr 9 else Inl (fc_exception ''bad name'')),
      public_key_from_string =
        (\<lambda>s. if s = ''PUB1'' then Inr [1]
              else if s = null_key_text then Inr public_key_type_default
              else Inl (fc_exception ''bad key'')),
      group_id_from_string =
        (\<lambda>s. if s = ''owner'' then Inr 1
              else if s = ''G77'' then Inr 77
              else Inl (fc_exception ''bad group id'')),
      group_id_from_group_key = (\<lambda>k. if k = [1] then 101 else 102),
      group_id_to_base58 = (\<lambda>gid. if gid = 101 then ''G101'' else ''G''),
      as_get_info_results = demo_as_get_info_results,
      as_block_id_type =
        (\<lambda>v. case v of uint64_type n \<Rightarrow> Inr (of_nat n) | _ \<Rightarrow> Inl (fc_exception ''bad cast'')),
      as_signed_transaction =
        (\<lambda>v. case v of object_type kvs \<Rightarrow> Inr signed_transaction_default
              | _ \<Rightarrow> Inl (fc_exception ''bad cast'')),
      as_permission_def =
        (\<lambda>v. case v of object_type kvs \<Rightarrow> Inr \<lparr>name = ''parsed'', threshold = 2, authorizers = []\<rparr>
              | _ \<Rightarrow> Inl (fc_exception ''bad cast'')),
      as_group_def =
        (\<lambda>v. case v of object_type kvs \<Rightarrow> Inr \<lparr>group_key = [1], group_root = group_leaf [1] 1\<rparr>
              | _ \<Rightarrow> Inl (fc_exception ''bad cast'')),
      variant_of_transaction = (\<lambda>t. string_type ''transaction''),
      variant_of_signed_transaction = (\<lambda>t. string_type ''signed transaction''),
      variant_of_packed_transaction = (\<lambda>t c. string_type ''packed transaction''),
      variant_of_chain_id = string_type ''chain id''\<rparr>"


text \<open>
  Two texts too long to be the name of a file: inline JSON of 302 characters, and a word
  of 256.
\<close>

definition long_json :: string where
  "long_json = ''{'' @ replicate 300 (CHR '' '') @ ''}''"

definition long_name :: string where
  "long_name = ''x'' @ replicate 255 (CHR ''x'')"

section \<open>Properties\<close>

subsection \<open>Computations and requests\<close>

lemmas io_defs = io_bind_def io_return_def io_throw_def io_lift_def print_stdout_def

lemma call_Inr:
  "http env es u p v = Inr r \<Longrightarrow> call env g u p v es = (Inr r, es @ [http_request u p v])"
  by (simp add: call_def http_call_def)

lemma call_fst_Inl:
  "http env es u p v = Inl e \<Longrightarrow> \<exists>e'. fst (call env g u p v es) = Inl e'"
proof -
  assume "http env es u p v = Inl e"
  then show ?thesis
    by (cases e) (simp_all add: call_def http_call_def)
qed

lemma call_http_requests:
  "filter is_http_request (snd (call env g u p v es)) =
     filter is_http_request es @ [http_request u p v]"
proof (cases "http env es u p v")
  case (Inl e)
  then show ?thesis
    by (cases e) (simp_all add: call_def http_call_def)
next
  case (Inr r)
  then show ?thesis
    by (simp add: call_def http_call_def)
qed

lemma call_signing_requests:
  "filter signing_request (snd (call env g u p v es)) =
     filter signing_request es @ filter signing_request [http_request u p v]"
proof (cases "http env es u p v")
  case (Inl e)
  then show ?thesis
    by (cases e) (simp_all add: call_def http_call_def)
next
  case (Inr r)
  then show ?thesis
    by (simp add: call_def http_call_def)
qed

lemma io_bind_snd_filter:
  assumes "\<And>es. filter P (snd (m es)) = filter P es @ xs"
    and "\<And>x es. filter P (snd (f x es)) = filter P es"
  shows "filter P (snd (io_bind m f es)) = filter P es @ xs"
  using assms(1)[of es] assms(2)
  by (auto simp add: io_bind_def split: prod.splits sum.splits)

lemma get_info_signing:
  "filter signing_request (snd (get_info env g es)) = filter signing_request es"
  unfolding get_info_def
  using io_bind_snd_filter[where P = signing_request and xs = "[]" and es = es
     and m = "call env g (url g) get_info_func null_type" and f = "\<lambda>v. io_lift (as_get_info_results env v)"]
  by (simp add: call_signing_requests io_lift_def)

lemma ref_block_id_signing:
  "filter signing_request (snd (ref_block_id env g info es)) = filter signing_request es"
  unfolding ref_block_id_def io_EVT_RETHROW_EXCEPTIONS_def call_node_def
  apply (simp split: prod.splits)
  apply (intro conjI impI allI)
  subgoal for r es'
    using io_bind_snd_filter[where P = signing_request and xs = "[]" and es = es
     and m = "call env g (url g) get_block_func (object_type [(''block_num_or_id'', string_type (tx_ref_block_num_or_id g))])" 
     and f = "\<lambda>ref_block. io_lift (result_bind (variant_index ref_block ''id'') (as_block_id_type env))"]
    by (simp add: call_signing_requests io_lift_def)
  subgoal for r es'
    using io_bind_snd_filter[where P = signing_request and xs = "[]" and es = es
     and m = "call env g (url g) get_block_func (object_type [(''block_num_or_id'', uint64_type (unat (last_irreversible_block_num info)))])" 
     and f = "\<lambda>ref_block. io_lift (result_bind (variant_index ref_block ''id'') (as_block_id_type env))"]
    by (simp add: call_signing_requests io_lift_def)
  done

lemma transaction_assembler_signing:
  "filter signing_request (snd (transaction_assembler env g trx es)) = filter signing_request es"
  unfolding transaction_assembler_def Let_def
  apply (rule io_bind_snd_filter[where xs = "[]", simplified])
   apply (rule get_info_signing)
  apply (rule io_bind_snd_filter[where xs = "[]", simplified])
   apply (rule ref_block_id_signing)
  apply (simp add: io_return_def)
  done

lemma broadcaster_signing:
  "filter signing_request (snd (broadcaster env g trx c es)) = filter signing_request es"
  by (simp add: broadcaster_def call_node_def call_signing_requests io_return_def)

lemma transaction_assembler_signatures:
  assumes "transaction_assembler env g trx es = (Inr t, es')"
  shows "signatures t = signatures trx"
proof -
  obtain ri e1 where i: "get_info env g es = (ri, e1)"
    by (cases "get_info env g es")
  show ?thesis
  proof (cases ri)
    case (Inl e)
    with assms i show ?thesis
      by (simp add: transaction_assembler_def io_bind_def)
  next
    case (Inr info)
    obtain rb e2 where r: "ref_block_id env g info e1 = (rb, e2)"
      by (cases "ref_block_id env g info e1")
    from assms i Inr r show ?thesis
      by (cases rb)
        (auto simp add: transaction_assembler_def io_bind_def io_return_def
          set_reference_block_def)
  qed
qed

lemma get_info_ok:
  "http env es (url g) get_info_func null_type = Inr iv \<Longrightarrow>
   get_info env g es = (as_get_info_results env iv, es @ [http_request (url g) get_info_func null_type])"
  by (simp add: get_info_def io_defs call_Inr)

lemma ref_block_id_ok:
  assumes "http env es (url g) get_block_func
       (object_type [(''block_num_or_id'',
          if tx_ref_block_num_or_id g \<noteq> [] then string_type (tx_ref_block_num_or_id g)
          else uint64_type (unat (last_irreversible_block_num info)))]) = Inr ref_block"
    and "variant_index ref_block ''id'' = Inr idv" and "as_block_id_type env idv = Inr b"
  shows "ref_block_id env g info es = (Inr b, es @ [http_request (url g) get_block_func
       (object_type [(''block_num_or_id'',
          if tx_ref_block_num_or_id g \<noteq> [] then string_type (tx_ref_block_num_or_id g)
          else uint64_type (unat (last_irreversible_block_num info)))])])"
  using assms
  by (auto simp add: ref_block_id_def io_EVT_RETHROW_EXCEPTIONS_def EVT_RETHROW_EXCEPTIONS_def
      call_node_def io_defs call_Inr result_bind_def split: if_splits)

lemma fst_io_EVT_RETHROW_EXCEPTIONS:
  "fst (io_EVT_RETHROW_EXCEPTIONS e m es) = EVT_RETHROW_EXCEPTIONS e (fst (m es))"
  by (cases "m es") (simp add: io_EVT_RETHROW_EXCEPTIONS_def)

lemma fst_io_bind_lift:
  "fst (io_bind m (\<lambda>x. io_lift (f x)) es) = result_bind (fst (m es)) f"
proof (cases "m es")
  case (Pair r es')
  then show ?thesis
    by (cases r) (simp_all add: io_bind_def io_lift_def result_bind_def)
qed

lemma call_fst_Inr:
  "http env es u p v = Inr r \<Longrightarrow> fst (call env g u p v es) = Inr r"
  by (simp add: call_Inr)

lemma result_bind_call_fails:
  assumes "result_bind (http env es u p v) f = Inl e"
  shows "\<exists>e'. result_bind (fst (call env g u p v es)) f = Inl e'"
proof (cases "http env es u p v")
  case (Inl x)
  from call_fst_Inl[OF this, of g] show ?thesis
    by (auto simp add: result_bind_def)
next
  case (Inr r)
  with assms show ?thesis
    by (simp add: call_fst_Inr)
qed

lemma ref_block_id_request:
  "ref_block_id env g info =
     io_EVT_RETHROW_EXCEPTIONS
       (invalid_ref_block_exception ''Invalid reference block num or id: ${block_num_or_id}''
          (tx_ref_block_num_or_id g))
       (io_bind
          (call env g (url g) get_block_func
             (object_type [(''block_num_or_id'',
                if tx_ref_block_num_or_id g \<noteq> [] then string_type (tx_ref_block_num_or_id g)
                else uint64_type (unat (last_irreversible_block_num info)))]))
          (\<lambda>ref_block.
             io_lift (result_bind (variant_index ref_block ''id'') (as_block_id_type env))))"
  by (cases "tx_ref_block_num_or_id g = []") (simp_all add: ref_block_id_def call_node_def)

lemma snd_io_EVT_RETHROW_EXCEPTIONS:
  "snd (io_EVT_RETHROW_EXCEPTIONS e m es) = snd (m es)"
  by (cases "m es") (simp add: io_EVT_RETHROW_EXCEPTIONS_def)

lemma snd_io_bind_lift:
  "snd (io_bind m (\<lambda>x. io_lift (f x)) es) = snd (m es)"
proof (cases "m es")
  case (Pair r es')
  then show ?thesis
    by (cases r) (simp_all add: io_bind_def io_lift_def)
qed

lemma ref_block_id_fails:
  assumes "result_bind (http env es (url g) get_block_func
       (object_type [(''block_num_or_id'',
          if tx_ref_block_num_or_id g \<noteq> [] then string_type (tx_ref_block_num_or_id g)
          else uint64_type (unat (last_irreversible_block_num info)))]))
       (\<lambda>ref_block. result_bind (variant_index ref_block ''id'') (as_block_id_type env)) = Inl e"
  shows "fst (ref_block_id env g info es) =
     Inl (invalid_ref_block_exception ''Invalid reference block num or id: ${block_num_or_id}''
            (tx_ref_block_num_or_id g))"
  using result_bind_call_fails[OF assms, of g]
  by (auto simp add: ref_block_id_request fst_io_EVT_RETHROW_EXCEPTIONS fst_io_bind_lift
      EVT_RETHROW_EXCEPTIONS_def)

lemma ref_block_id_http_requests:
  "filter is_http_request (snd (ref_block_id env g info es)) =
     filter is_http_request es @ [http_request (url g) get_block_func
       (object_type [(''block_num_or_id'',
          if tx_ref_block_num_or_id g \<noteq> [] then string_type (tx_ref_block_num_or_id g)
          else uint64_type (unat (last_irreversible_block_num info)))])]"
  by (simp only: ref_block_id_request snd_io_EVT_RETHROW_EXCEPTIONS snd_io_bind_lift
      call_http_requests)

lemma demo_get_info:
  "http demo_env es (url initial_globals) get_info_func null_type =
     Inr (object_type
            [(''head_block_time'', uint64_type 1000),
             (''head_block_id'', uint64_type 107),
             (''last_irreversible_block_num'', uint64_type 5)])"
  by (simp add: demo_env_def demo_http_def)

lemma demo_as_get_info:
  "as_get_info_results demo_env (object_type
            [(''head_block_time'', uint64_type 1000),
             (''head_block_id'', uint64_type 107),
             (''last_irreversible_block_num'', uint64_type 5)]) =
   Inr \<lparr>head_block_time = 1000, head_block_id = 107, last_irreversible_block_num = 5\<rparr>"
  by (simp add: demo_env_def demo_as_get_info_results_def)

lemma demo_key_not_default: "[1] \<noteq> public_key_type_default"
proof
  assume "[1] = public_key_type_default"
  then have "length [1::8 word] = length public_key_type_default"
    by simp
  then show False
    by (simp add: public_key_type_default_def)
qed

lemma regex_search_r_dropWhile:
  "regex_search_r s =
     (case dropWhile (\<lambda>c. c = CHR '' '' \<or> c = CHR 0x09) s of
        [] \<Rightarrow> False
      | c # cs \<Rightarrow> c = CHR ''{'' \<or> c = CHR ''['')"
  by (induction s) simp_all

lemma demo_push_txn:
  "http demo_env es ''http://localhost:8888'' push_txn_func v = Inr (string_type ''pushed'')"
  by (simp add: demo_env_def demo_http_def)

lemma demo_push_txns:
  "http (demo_env\<lparr>json_parse := jp\<rparr>) es ''http://localhost:8888'' push_txns_func v =
     Inr (string_type ''pushed all'')"
  by (simp add: demo_env_def demo_http_def)

lemma demo_get_block_5:
  "http demo_env es ''http://localhost:8888'' get_block_func
     (object_type [(''block_num_or_id'', uint64_type 5)]) =
   Inr (object_type [(''id'', uint64_type 105)])"
  by (simp add: demo_env_def demo_http_def)

lemma demo_push_run:
  "send_actions demo_env (initial_globals\<lparr>tx_skip_sign := True\<rparr>) acts none [] =
     (Inr (),
      [http_request ''http://localhost:8888'' get_info_func null_type,
       http_request ''http://localhost:8888'' get_block_func
         (object_type [(''block_num_or_id'', uint64_type 5)]),
       http_request ''http://localhost:8888'' push_txn_func (string_type ''packed transaction''),
       stdout (''pushed'' @ endl)])"
proof -
  let ?g = "initial_globals\<lparr>tx_skip_sign := True\<rparr>"
  let ?u = "''http://localhost:8888''"
  let ?trx = "signed_transaction_default\<lparr>actions := acts\<rparr>"
  have u: "url ?g = ?u" and r: "tx_ref_block_num_or_id ?g = []"
    and x: "tx_expiration ?g = 30" and b: "\<not> tx_dont_broadcast ?g"
    by (simp_all add: initial_globals_def)
  have i: "get_info demo_env ?g [] =
      (Inr \<lparr>head_block_time = 1000, head_block_id = 107, last_irreversible_block_num = 5\<rparr>,
       [http_request ?u get_info_func null_type])"
    using get_info_ok[of demo_env "[]" ?g, unfolded u, OF demo_get_info[unfolded initial_globals_def, simplified]]
    by (simp add: demo_as_get_info)
  have k: "ref_block_id demo_env ?g
      \<lparr>head_block_time = 1000, head_block_id = 107, last_irreversible_block_num = 5\<rparr>
      [http_request ?u get_info_func null_type] =
      (Inr 105,
       [http_request ?u get_info_func null_type,
        http_request ?u get_block_func (object_type [(''block_num_or_id'', uint64_type 5)])])"
    using ref_block_id_ok[of demo_env "[http_request ?u get_info_func null_type]" ?g
        "\<lparr>head_block_time = 1000, head_block_id = 107, last_irreversible_block_num = 5\<rparr>"
        "object_type [(''id'', uint64_type 105)]" "uint64_type 105" 105]
    by (simp add: u r demo_get_block_5) (simp add: demo_env_def)
  have a: "transaction_assembler demo_env ?g ?trx [] =
      (Inr (?trx\<lparr>expiration := 1030, reference_block := 105\<rparr>),
       [http_request ?u get_info_func null_type,
        http_request ?u get_block_func (object_type [(''block_num_or_id'', uint64_type 5)])])"
    by (simp add: transaction_assembler_def io_bind_def io_return_def i k x
        set_reference_block_def Let_def)
  have p: "to_pretty_string demo_env (string_type ''pushed'') = ''pushed''"
    and v: "variant_of_packed_transaction demo_env t none = string_type ''packed transaction''"
    for t
    by (simp_all add: demo_env_def)
  show ?thesis
    by (simp add: send_actions_def push_actions_def push_transaction_def io_bind_def a
        remote_signer_def io_return_def broadcaster_def b call_node_def u
        call_Inr[OF demo_push_txn] v p print_stdout_def)
qed

subsection \<open>The claims\<close>

text \<open>
  C1. The Transaction Assembler sets the expiration to the head block time that get_info
  returned plus the configured expiration (30 seconds in the initial globals, any other
  value when the caller sets it), and the reference block to the id of the block that
  get_block returned for the reference block the caller named or, when the caller named
  none, for the last irreversible block number of get_info. That transaction is what the
  signer and the broadcaster receive.
\<close>

theorem push_transaction_expiration_reference_block:
  assumes "http env es (url g) get_info_func null_type = Inr iv"
    and "as_get_info_results env iv = Inr info"
    and "block_num_or_id =
           (if tx_ref_block_num_or_id g \<noteq> [] then string_type (tx_ref_block_num_or_id g)
            else uint64_type (unat (last_irreversible_block_num info)))"
    and "es1 = es @ [http_request (url g) get_info_func null_type]"
    and "http env es1 (url g) get_block_func
           (object_type [(''block_num_or_id'', block_num_or_id)]) = Inr ref_block"
    and "variant_index ref_block ''id'' = Inr idv"
    and "as_block_id_type env idv = Inr b"
    and "es2 = es1 @ [http_request (url g) get_block_func
                        (object_type [(''block_num_or_id'', block_num_or_id)])]"
  shows "tx_expiration initial_globals = 30 \<and>
    transaction_assembler env g trx es =
      (Inr (trx\<lparr>expiration := head_block_time info + tx_expiration g, reference_block := b\<rparr>),
       es2) \<and>
    push_transaction env g trx c es =
      io_bind
        (remote_signer env g
           (trx\<lparr>expiration := head_block_time info + tx_expiration g, reference_block := b\<rparr>))
        (\<lambda>t. broadcaster env g t c) es2"
proof -
  have i: "get_info env g es = (Inr info, es1)"
    using get_info_ok[OF assms(1)] assms(2) assms(4) by simp
  have r: "ref_block_id env g info es1 = (Inr b, es2)"
    using ref_block_id_ok[of env es1 g info ref_block idv b] assms(3,5,6,7,8) by simp
  have a: "transaction_assembler env g trx es =
      (Inr (trx\<lparr>expiration := head_block_time info + tx_expiration g, reference_block := b\<rparr>),
       es2)"
    using i r by (simp add: transaction_assembler_def set_reference_block_def io_defs Let_def)
  have p: "push_transaction env g trx c es =
      io_bind
        (remote_signer env g
           (trx\<lparr>expiration := head_block_time info + tx_expiration g, reference_block := b\<rparr>))
        (\<lambda>t. broadcaster env g t c) es2"
    using a by (simp add: push_transaction_def io_bind_def)
  have d: "tx_expiration initial_globals = 30"
    by (simp add: initial_globals_def)
  from d a p show ?thesis by simp
qed

theorem push_transaction_expiration_reference_block_witness:
  "transaction_assembler demo_env initial_globals signed_transaction_default [] =
     (Inr (signed_transaction_default\<lparr>expiration := 1030, reference_block := 105\<rparr>),
      [http_request ''http://localhost:8888'' get_info_func null_type,
       http_request ''http://localhost:8888'' get_block_func
         (object_type [(''block_num_or_id'', uint64_type 5)])])"
proof -
  let ?info = "\<lparr>head_block_time = 1000, head_block_id = 107, last_irreversible_block_num = 5\<rparr>"
  let ?es1 = "[] @ [http_request (url initial_globals) get_info_func null_type]"
  have n: "uint64_type 5 =
      (if tx_ref_block_num_or_id initial_globals \<noteq> []
       then string_type (tx_ref_block_num_or_id initial_globals)
       else uint64_type (unat (last_irreversible_block_num ?info)))"
    by (simp add: initial_globals_def)
  have b: "http demo_env ?es1 (url initial_globals) get_block_func
       (object_type [(''block_num_or_id'', uint64_type 5)]) =
      Inr (object_type [(''id'', uint64_type 105)])"
    by (simp add: demo_env_def demo_http_def)
  have i: "variant_index (object_type [(''id'', uint64_type 105)]) ''id'' = Inr (uint64_type 105)"
    by simp
  have c: "as_block_id_type demo_env (uint64_type 105) = Inr 105"
    by (simp add: demo_env_def)
  show ?thesis
    using push_transaction_expiration_reference_block
      [OF demo_get_info demo_as_get_info n refl b i c refl, of signed_transaction_default none]
    by (simp add: initial_globals_def)
qed

text \<open>
  C2. The default permission has threshold 1 and exactly one authorizer, of weight 1. For a
  key that is not the zero key the authorizer refers to that key. For the zero key it
  refers to the group that group_id::from_string gives for the text owner (and the
  function throws what from_string throws, when it throws).
\<close>

theorem get_default_permission_result:
  "(pkey \<noteq> public_key_type_default \<longrightarrow>
      get_default_permission env pname pkey =
        Inr \<lparr>name = pname, threshold = 1,
             authorizers = [\<lparr>ref = account_ref pkey, weight = 1\<rparr>]\<rparr>) \<and>
   (pkey = public_key_type_default \<longrightarrow>
      get_default_permission env pname pkey =
        (case group_id_from_string env ''owner'' of
           Inl e \<Rightarrow> Inl e
         | Inr owner \<Rightarrow>
             Inr \<lparr>name = pname, threshold = 1,
                  authorizers = [\<lparr>ref = group_ref owner, weight = 1\<rparr>]\<rparr>))"
  by (simp add: get_default_permission_def result_bind_def permission_def_default_def
      authorizer_weight_default_def set_account_def set_group_def split: sum.splits)

theorem get_default_permission_result_witness:
  "get_default_permission demo_env ''issue'' [1] =
     Inr \<lparr>name = ''issue'', threshold = 1,
          authorizers = [\<lparr>ref = account_ref [1], weight = 1\<rparr>]\<rparr> \<and>
   get_default_permission demo_env ''transfer'' public_key_type_default =
     Inr \<lparr>name = ''transfer'', threshold = 1,
          authorizers = [\<lparr>ref = group_ref 1, weight = 1\<rparr>]\<rparr>"
proof -
  have o: "group_id_from_string demo_env ''owner'' = Inr 1"
    by (simp add: demo_env_def)
  from get_default_permission_result[of "[1]" demo_env "''issue''"] demo_key_not_default
  have a: "get_default_permission demo_env ''issue'' [1] =
     Inr \<lparr>name = ''issue'', threshold = 1,
          authorizers = [\<lparr>ref = account_ref [1], weight = 1\<rparr>]\<rparr>"
    by blast
  from get_default_permission_result[of public_key_type_default demo_env "''transfer''"] o
  have b: "get_default_permission demo_env ''transfer'' public_key_type_default =
     Inr \<lparr>name = ''transfer'', threshold = 1,
          authorizers = [\<lparr>ref = group_ref 1, weight = 1\<rparr>]\<rparr>"
    by simp
  from a b show ?thesis by simp
qed

text \<open>
  C3. When get_info has answered and the reference block cannot be resolved (the
  get_block request fails, or its answer has no readable id), push_transaction fails with
  invalid_ref_block_exception carrying the reference block the caller named, and the
  requests it has made are get_info and get_block only: no request to the wallet, no
  required keys request and no push.
\<close>

theorem push_transaction_invalid_ref_block:
  assumes "http env es (url g) get_info_func null_type = Inr iv"
    and "as_get_info_results env iv = Inr info"
    and "block_num_or_id =
           (if tx_ref_block_num_or_id g \<noteq> [] then string_type (tx_ref_block_num_or_id g)
            else uint64_type (unat (last_irreversible_block_num info)))"
    and "result_bind
           (http env (es @ [http_request (url g) get_info_func null_type]) (url g)
              get_block_func (object_type [(''block_num_or_id'', block_num_or_id)]))
           (\<lambda>ref_block. result_bind (variant_index ref_block ''id'') (as_block_id_type env)) =
         Inl e"
  shows "fst (push_transaction env g trx c es) =
      Inl (invalid_ref_block_exception ''Invalid reference block num or id: ${block_num_or_id}''
             (tx_ref_block_num_or_id g)) \<and>
    filter is_http_request (snd (push_transaction env g trx c es)) =
      filter is_http_request es @
        [http_request (url g) get_info_func null_type,
         http_request (url g) get_block_func
           (object_type [(''block_num_or_id'', block_num_or_id)])]"
proof -
  let ?es1 = "es @ [http_request (url g) get_info_func null_type]"
  let ?exn = "invalid_ref_block_exception
      ''Invalid reference block num or id: ${block_num_or_id}'' (tx_ref_block_num_or_id g)"
  have i: "get_info env g es = (Inr info, ?es1)"
    using get_info_ok[OF assms(1)] assms(2) by simp
  obtain r es2 where r: "ref_block_id env g info ?es1 = (r, es2)"
    by (cases "ref_block_id env g info ?es1")
  have f: "r = Inl ?exn"
    using ref_block_id_fails[of env ?es1 g info e] assms(3,4) r by simp
  have p: "push_transaction env g trx c es = (Inl ?exn, es2)"
    using i r f by (simp add: push_transaction_def transaction_assembler_def io_defs Let_def)
  have "filter is_http_request es2 =
      filter is_http_request ?es1 @
        [http_request (url g) get_block_func
           (object_type [(''block_num_or_id'', block_num_or_id)])]"
    using ref_block_id_http_requests[of env g info ?es1] r assms(3) by simp
  then show ?thesis using p by simp
qed

theorem push_transaction_invalid_ref_block_witness:
  "fst (push_transaction demo_env (initial_globals\<lparr>tx_ref_block_num_or_id := ''999''\<rparr>)
          signed_transaction_default none []) =
     Inl (invalid_ref_block_exception
            ''Invalid reference block num or id: ${block_num_or_id}'' ''999'') \<and>
   filter is_http_request
     (snd (push_transaction demo_env (initial_globals\<lparr>tx_ref_block_num_or_id := ''999''\<rparr>)
             signed_transaction_default none [])) =
     [http_request ''http://localhost:8888'' get_info_func null_type,
      http_request ''http://localhost:8888'' get_block_func
        (object_type [(''block_num_or_id'', string_type ''999'')])]"
proof -
  let ?g = "initial_globals\<lparr>tx_ref_block_num_or_id := ''999''\<rparr>"
  let ?info = "\<lparr>head_block_time = 1000, head_block_id = 107, last_irreversible_block_num = 5\<rparr>"
  have u: "url ?g = url initial_globals"
    by simp
  have n: "string_type ''999'' =
      (if tx_ref_block_num_or_id ?g \<noteq> [] then string_type (tx_ref_block_num_or_id ?g)
       else uint64_type (unat (last_irreversible_block_num ?info)))"
    by simp
  have b: "result_bind
      (http demo_env ([] @ [http_request (url ?g) get_info_func null_type]) (url ?g)
         get_block_func (object_type [(''block_num_or_id'', string_type ''999'')]))
      (\<lambda>ref_block. result_bind (variant_index ref_block ''id'') (as_block_id_type demo_env)) =
      Inl (fc_exception ''unknown block'')"
    by (simp add: demo_env_def demo_http_def result_bind_def)
  show ?thesis
    using push_transaction_invalid_ref_block
      [OF demo_get_info[of "[]", folded u] demo_as_get_info n b, of signed_transaction_default none]
    by (simp add: initial_globals_def)
qed

text \<open>
  C4, as the code has it. The regular expression accepts a text whose first character
  after leading spaces and tabs is an opening brace or bracket. json_from_file_or_string
  (permissions and groups) parses such a text as inline JSON without looking at the file
  system. For any other text it asks the file system whether the text names a regular
  file: if that cannot be told it fails, if it does the file is read and parsed, and if
  it does not the text is parsed as inline JSON. The push transaction command does not
  look at the first character: it asks the file system about every text, fails with the
  transaction format error if that cannot be told, reads the text as a file when it names
  a regular file and parses it as inline JSON otherwise.
\<close>

theorem json_source_selection:
  "regex_search_r s =
     (case dropWhile (\<lambda>c. c = CHR '' '' \<or> c = CHR 0x09) s of
        [] \<Rightarrow> False
      | c # cs \<Rightarrow> c = CHR ''{'' \<or> c = CHR ''['') \<and>
   (regex_search_r s \<longrightarrow>
      json_from_file_or_string env s ptype = json_from_string env s ptype) \<and>
   (\<not> regex_search_r s \<longrightarrow>
      json_from_file_or_string env s ptype =
        (case is_regular_file env s of
           Inl e \<Rightarrow> Inl e
         | Inr regular \<Rightarrow>
             if regular then json_from_file env s ptype else json_from_string env s ptype)) \<and>
   parse_permission env s =
     EVT_RETHROW_EXCEPTIONS (permission_type_exception ''Fail to parse Permission JSON'')
       (result_bind
          (if regex_search_r s then json_from_string env s legacy_parser
           else case is_regular_file env s of
                  Inl e \<Rightarrow> Inl e
                | Inr regular \<Rightarrow>
                    if regular then json_from_file env s legacy_parser
                    else json_from_string env s legacy_parser)
          (as_permission_def env)) \<and>
   parse_group env s =
     EVT_RETHROW_EXCEPTIONS (group_type_exception ''Fail to parse Group JSON'')
       (result_bind
          (if regex_search_r s then json_from_string env s legacy_parser
           else case is_regular_file env s of
                  Inl e \<Rightarrow> Inl e
                | Inr regular \<Rightarrow>
                    if regular then json_from_file env s legacy_parser
                    else json_from_string env s legacy_parser)
          (as_group_def env)) \<and>
   trxSubcommand_callback env g s es =
     (case is_regular_file env s of
        Inl e \<Rightarrow> (Inl (transaction_type_exception ''Fail to parse transaction JSON''), es)
      | Inr regular \<Rightarrow>
          (case (if regular then json_from_file env s legacy_parser
                 else json_from_string env s legacy_parser) of
             Inl e \<Rightarrow> (Inl (transaction_type_exception ''Fail to parse transaction JSON''), es)
           | Inr trx_var \<Rightarrow>
               (case as_signed_transaction env trx_var of
                  Inl e \<Rightarrow> (Inl e, es)
                | Inr trx \<Rightarrow>
                    io_bind
                      (call_node env g push_txn_func
                         (variant_of_packed_transaction env trx none))
                      (\<lambda>trx_result. print_stdout (to_pretty_string env trx_result @ endl))
                      es)))"
proof -
  have j: "json_from_file_or_string env s pt =
      (if regex_search_r s then json_from_string env s pt
       else case is_regular_file env s of
              Inl e \<Rightarrow> Inl e
            | Inr regular \<Rightarrow>
                if regular then json_from_file env s pt else json_from_string env s pt)" for pt
    by (simp add: json_from_file_or_string_def result_bind_def)
  have a: "parse_permission env s =
     EVT_RETHROW_EXCEPTIONS (permission_type_exception ''Fail to parse Permission JSON'')
       (result_bind
          (if regex_search_r s then json_from_string env s legacy_parser
           else case is_regular_file env s of
                  Inl e \<Rightarrow> Inl e
                | Inr regular \<Rightarrow>
                    if regular then json_from_file env s legacy_parser
                    else json_from_string env s legacy_parser)
          (as_permission_def env))"
    by (simp only: parse_permission_def j)
  have b: "parse_group env s =
     EVT_RETHROW_EXCEPTIONS (group_type_exception ''Fail to parse Group JSON'')
       (result_bind
          (if regex_search_r s then json_from_string env s legacy_parser
           else case is_regular_file env s of
                  Inl e \<Rightarrow> Inl e
                | Inr regular \<Rightarrow>
                    if regular then json_from_file env s legacy_parser
                    else json_from_string env s legacy_parser)
          (as_group_def env))"
    by (simp only: parse_group_def j)
  have c: "trxSubcommand_callback env g s es =
     (case is_regular_file env s of
        Inl e \<Rightarrow> (Inl (transaction_type_exception ''Fail to parse transaction JSON''), es)
      | Inr regular \<Rightarrow>
          (case (if regular then json_from_file env s legacy_parser
                 else json_from_string env s legacy_parser) of
             Inl e \<Rightarrow> (Inl (transaction_type_exception ''Fail to parse transaction JSON''), es)
           | Inr trx_var \<Rightarrow>
               (case as_signed_transaction env trx_var of
                  Inl e \<Rightarrow> (Inl e, es)
                | Inr trx \<Rightarrow>
                    io_bind
                      (call_node env g push_txn_func
                         (variant_of_packed_transaction env trx none))
                      (\<lambda>trx_result. print_stdout (to_pretty_string env trx_result @ endl))
                      es)))"
  proof (cases "is_regular_file env s")
    case (Inl e)
    then show ?thesis
      by (simp add: trxSubcommand_callback_def EVT_RETHROW_EXCEPTIONS_def result_bind_def
          io_bind_def io_lift_def)
  next
    case (Inr regular)
    then show ?thesis
      by (simp add: trxSubcommand_callback_def EVT_RETHROW_EXCEPTIONS_def result_bind_def
          io_bind_def io_lift_def split: sum.splits)
  qed
  have d: "regex_search_r s \<longrightarrow>
      json_from_file_or_string env s ptype = json_from_string env s ptype"
    by (simp add: j)
  have e: "\<not> regex_search_r s \<longrightarrow>
      json_from_file_or_string env s ptype =
        (case is_regular_file env s of
           Inl e \<Rightarrow> Inl e
         | Inr regular \<Rightarrow>
             if regular then json_from_file env s ptype else json_from_string env s ptype)"
    by (simp add: j)
  from regex_search_r_dropWhile[of s] d e a b c show ?thesis
    by (intro conjI)
qed

theorem json_source_selection_witness:
  "json_from_file_or_string demo_env '' {}'' legacy_parser =
     json_from_string demo_env '' {}'' legacy_parser \<and>
   json_from_file_or_string demo_env ''perm.json'' legacy_parser =
     json_from_file demo_env ''perm.json'' legacy_parser \<and>
   json_from_file_or_string demo_env ''null'' legacy_parser =
     json_from_string demo_env ''null'' legacy_parser \<and>
   json_from_file_or_string demo_env long_name legacy_parser =
     Inl (fc_exception ''File name too long'') \<and>
   trxSubcommand_callback demo_env initial_globals long_json [] =
     (Inl (transaction_type_exception ''Fail to parse transaction JSON''), [])"
proof -
  have a: "regex_search_r '' {}''"
    by simp
  have b: "\<not> regex_search_r ''perm.json''"
    and b': "is_regular_file demo_env ''perm.json'' = Inr True"
    by (simp_all add: demo_env_def)
  have c: "\<not> regex_search_r ''null''"
    and c': "is_regular_file demo_env ''null'' = Inr False"
    by (simp_all add: demo_env_def)
  have l: "\<not> regex_search_r long_name"
    and l': "is_regular_file demo_env long_name = Inl (fc_exception ''File name too long'')"
    by (simp_all add: long_name_def demo_env_def)
  have m: "is_regular_file demo_env long_json = Inl (fc_exception ''File name too long'')"
    by (simp add: long_json_def demo_env_def)
  from json_source_selection[of "'' {}''" demo_env legacy_parser] a
  have x: "json_from_file_or_string demo_env '' {}'' legacy_parser =
     json_from_string demo_env '' {}'' legacy_parser"
    by blast
  from json_source_selection[of "''perm.json''" demo_env legacy_parser] b
  have "json_from_file_or_string demo_env ''perm.json'' legacy_parser =
        (case is_regular_file demo_env ''perm.json'' of
           Inl e \<Rightarrow> Inl e
         | Inr regular \<Rightarrow>
             if regular then json_from_file demo_env ''perm.json'' legacy_parser
             else json_from_string demo_env ''perm.json'' legacy_parser)"
    by blast
  then have y: "json_from_file_or_string demo_env ''perm.json'' legacy_parser =
     json_from_file demo_env ''perm.json'' legacy_parser"
    by (simp add: b')
  from json_source_selection[of "''null''" demo_env legacy_parser] c
  have "json_from_file_or_string demo_env ''null'' legacy_parser =
        (case is_regular_file demo_env ''null'' of
           Inl e \<Rightarrow> Inl e
         | Inr regular \<Rightarrow>
             if regular then json_from_file demo_env ''null'' legacy_parser
             else json_from_string demo_env ''null'' legacy_parser)"
    by blast
  then have z: "json_from_file_or_string demo_env ''null'' legacy_parser =
     json_from_string demo_env ''null'' legacy_parser"
    by (simp add: c')
  from json_source_selection[of long_name demo_env legacy_parser] l
  have "json_from_file_or_string demo_env long_name legacy_parser =
        (case is_regular_file demo_env long_name of
           Inl e \<Rightarrow> Inl e
         | Inr regular \<Rightarrow>
             if regular then json_from_file demo_env long_name legacy_parser
             else json_from_string demo_env long_name legacy_parser)"
    by blast
  then have u: "json_from_file_or_string demo_env long_name legacy_parser =
     Inl (fc_exception ''File name too long'')"
    by (simp add: l')
  from json_source_selection[of long_json demo_env legacy_parser initial_globals "[]"]
  have "trxSubcommand_callback demo_env initial_globals long_json [] =
     (case is_regular_file demo_env long_json of
        Inl e \<Rightarrow> (Inl (transaction_type_exception ''Fail to parse transaction JSON''), [])
      | Inr regular \<Rightarrow>
          (case (if regular then json_from_file demo_env long_json legacy_parser
                 else json_from_string demo_env long_json legacy_parser) of
             Inl e \<Rightarrow> (Inl (transaction_type_exception ''Fail to parse transaction JSON''), [])
           | Inr trx_var \<Rightarrow>
               (case as_signed_transaction demo_env trx_var of
                  Inl e \<Rightarrow> (Inl e, [])
                | Inr trx \<Rightarrow>
                    io_bind
                      (call_node demo_env initial_globals push_txn_func
                         (variant_of_packed_transaction demo_env trx none))
                      (\<lambda>trx_result.
                         print_stdout (to_pretty_string demo_env trx_result @ endl))
                      [])))"
    by blast
  then have v: "trxSubcommand_callback demo_env initial_globals long_json [] =
     (Inl (transaction_type_exception ''Fail to parse transaction JSON''), [])"
    by (simp add: m)
  from x y z u v show ?thesis
    by (intro conjI)
qed

text \<open>
  C4 as the spec states it fails twice. The text null does not begin with a brace or a
  bracket and names no file: json_from_file_or_string parses it as inline JSON, where
  reading it as a file fails. The text [trx].json begins with a bracket and names a
  regular file: push transaction reads the file and pushes its transaction, where parsing
  the text as inline JSON fails.
\<close>

theorem json_source_selection_counterexample:
  "\<not> regex_search_r ''null'' \<and>
   json_from_file_or_string demo_env ''null'' legacy_parser = Inr null_type \<and>
   json_from_file demo_env ''null'' legacy_parser = Inl (fc_exception ''cannot read file'') \<and>
   regex_search_r ''[trx].json'' \<and>
   json_from_string demo_env ''[trx].json'' legacy_parser = Inl (fc_exception ''parse error'') \<and>
   trxSubcommand_callback demo_env initial_globals ''[trx].json'' [] =
     (Inr (),
      [http_request ''http://localhost:8888'' push_txn_func (string_type ''packed transaction''),
       stdout (''pushed'' @ endl)])"
proof -
  have n: "is_regular_file demo_env ''null'' = Inr False"
    by (simp add: demo_env_def)
  have a: "json_from_file_or_string demo_env ''null'' legacy_parser = Inr null_type"
    by (simp add: json_from_file_or_string_def json_from_string_def result_bind_def n
        demo_env_def demo_json_parse_def)
  have b: "json_from_file demo_env ''null'' legacy_parser = Inl (fc_exception ''cannot read file'')"
    by (simp add: json_from_file_def demo_env_def)
  have c: "json_from_string demo_env ''[trx].json'' legacy_parser =
      Inl (fc_exception ''parse error'')"
    by (simp add: json_from_string_def demo_env_def demo_json_parse_def)
  have f: "json_from_file demo_env ''[trx].json'' legacy_parser = Inr (object_type [])"
    by (simp add: json_from_file_def demo_env_def demo_json_parse_def)
  have r: "is_regular_file demo_env ''[trx].json'' = Inr True"
    by (simp add: demo_env_def)
  have t: "as_signed_transaction demo_env (object_type []) = Inr signed_transaction_default"
    by (simp add: demo_env_def)
  have v: "variant_of_packed_transaction demo_env signed_transaction_default none =
      string_type ''packed transaction''"
    by (simp add: demo_env_def)
  have p: "to_pretty_string demo_env (string_type ''pushed'') = ''pushed''"
    by (simp add: demo_env_def)
  have d: "trxSubcommand_callback demo_env initial_globals ''[trx].json'' [] =
     (Inr (),
      [http_request ''http://localhost:8888'' push_txn_func (string_type ''packed transaction''),
       stdout (''pushed'' @ endl)])"
    by (simp add: trxSubcommand_callback_def r f t v p EVT_RETHROW_EXCEPTIONS_def
        result_bind_def io_defs call_node_def call_Inr[OF demo_push_txn] initial_globals_def)
  from a b c d show ?thesis by simp
qed

text \<open>
  C5, as the code has it. push transactions parses its argument as inline JSON, always:
  the file system plays no part. When the text parses and the node answers, the parsed
  value is sent in one push_transactions request and the answer of the node is printed.
\<close>

theorem push_transactions_inline_json:
  "trxsSubcommand_callback (env\<lparr>is_regular_file := q, files := fs\<rparr>) g s es =
     trxsSubcommand_callback env g s es \<and>
   (json_from_string env s legacy_parser = Inr trx_var \<and>
    http env es (url g) push_txns_func trx_var = Inr trxs_result \<longrightarrow>
      trxsSubcommand_callback env g s es =
        (Inr (),
         es @ [http_request (url g) push_txns_func trx_var,
               stdout (to_pretty_string env trxs_result @ endl)]))"
proof -
  have a: "trxsSubcommand_callback (env\<lparr>is_regular_file := q, files := fs\<rparr>) g s es =
      trxsSubcommand_callback env g s es"
    by (simp add: trxsSubcommand_callback_def json_from_string_def call_node_def call_def
        http_call_def)
  have b: "trxsSubcommand_callback env g s es =
        (Inr (),
         es @ [http_request (url g) push_txns_func trx_var,
               stdout (to_pretty_string env trxs_result @ endl)])"
    if "json_from_string env s legacy_parser = Inr trx_var"
      and "http env es (url g) push_txns_func trx_var = Inr trxs_result"
    using that
    by (simp add: trxsSubcommand_callback_def EVT_RETHROW_EXCEPTIONS_def io_defs call_node_def
        call_Inr)
  from a b show ?thesis by blast
qed

theorem push_transactions_inline_json_witness:
  "trxsSubcommand_callback demo_env initial_globals ''[{},{}]'' [] =
     (Inr (),
      [http_request ''http://localhost:8888'' push_txns_func
         (array_type [object_type [], object_type []]),
       stdout (''pushed all'' @ endl)])"
proof -
  have a: "json_from_string demo_env ''[{},{}]'' legacy_parser =
      Inr (array_type [object_type [], object_type []])"
    by (simp add: json_from_string_def demo_env_def demo_json_parse_def)
  have b: "http demo_env [] (url initial_globals) push_txns_func
      (array_type [object_type [], object_type []]) = Inr (string_type ''pushed all'')"
    by (simp add: demo_env_def demo_http_def)
  have p: "to_pretty_string demo_env (string_type ''pushed all'') = ''pushed all''"
    by (simp add: demo_env_def)
  from push_transactions_inline_json[where env = demo_env and g = initial_globals
      and s = "''[{},{}]''" and es = "[]"
      and trx_var = "array_type [object_type [], object_type []]"
      and trxs_result = "string_type ''pushed all''"] a b
  have "trxsSubcommand_callback demo_env initial_globals ''[{},{}]'' [] =
        (Inr (),
         [] @ [http_request (url initial_globals) push_txns_func
                 (array_type [object_type [], object_type []]),
               stdout (to_pretty_string demo_env (string_type ''pushed all'') @ endl)])"
    by blast
  then show ?thesis
    by (simp add: p initial_globals_def)
qed

text \<open>
  C5 as the spec states it fails: the file trxs.json holds an array of two transactions,
  and push transactions, given its name, reads no file. It parses the name: where the
  parser rejects it the command fails before any request, and where the parser takes a
  bare word for a string it sends the name itself, not the two transactions.
\<close>

theorem push_transactions_inline_json_counterexample:
  "json_from_file demo_env ''trxs.json'' legacy_parser =
     Inr (array_type [object_type [], object_type []]) \<and>
   trxsSubcommand_callback demo_env initial_globals ''trxs.json'' [] =
     (Inl (transaction_type_exception ''Fail to parse transaction JSON''), []) \<and>
   trxsSubcommand_callback (demo_env\<lparr>json_parse := (\<lambda>ptype s. Inr (string_type s))\<rparr>)
     initial_globals ''trxs.json'' [] =
     (Inr (),
      [http_request ''http://localhost:8888'' push_txns_func (string_type ''trxs.json''),
       stdout (''pushed all'' @ endl)])"
proof -
  have a: "json_from_file demo_env ''trxs.json'' legacy_parser =
     Inr (array_type [object_type [], object_type []])"
    by (simp add: json_from_file_def demo_env_def demo_json_parse_def)
  have b: "trxsSubcommand_callback demo_env initial_globals ''trxs.json'' [] =
     (Inl (transaction_type_exception ''Fail to parse transaction JSON''), [])"
    by (simp add: trxsSubcommand_callback_def json_from_string_def EVT_RETHROW_EXCEPTIONS_def
        io_defs demo_env_def demo_json_parse_def)
  have q: "to_pretty_string demo_env (string_type ''pushed all'') = ''pushed all''"
    by (simp add: demo_env_def)
  have p: "to_pretty_string (demo_env\<lparr>json_parse := jp\<rparr>) (string_type ''pushed all'') =
      ''pushed all''" for jp
    by (simp add: q)
  have c: "trxsSubcommand_callback (demo_env\<lparr>json_parse := (\<lambda>ptype s. Inr (string_type s))\<rparr>)
     initial_globals ''trxs.json'' [] =
     (Inr (),
      [http_request ''http://localhost:8888'' push_txns_func (string_type ''trxs.json''),
       stdout (''pushed all'' @ endl)])"
    by (simp add: trxsSubcommand_callback_def json_from_string_def EVT_RETHROW_EXCEPTIONS_def
        io_defs call_node_def call_Inr[OF demo_push_txns] p q initial_globals_def)
  from a b c show ?thesis by simp
qed

text \<open>
  C6. With skip-sign set, the Remote Signer does nothing: it returns the transaction as it
  is and adds nothing to the log, so push_transaction goes from the assembler straight to
  the broadcaster; the assembler leaves the signatures as they were; and no request for
  the keys of the wallet, for the required keys or for a signature is made.
\<close>

theorem push_transaction_skip_sign:
  assumes "tx_skip_sign g"
  shows "remote_signer env g trx es = (Inr trx, es) \<and>
    push_transaction env g trx c es =
      io_bind (transaction_assembler env g trx) (\<lambda>t. broadcaster env g t c) es \<and>
    (\<forall>t es'. transaction_assembler env g trx es = (Inr t, es') \<longrightarrow>
        signatures t = signatures trx) \<and>
    filter signing_request (snd (push_transaction env g trx c es)) =
      filter signing_request es"
proof -
  have s: "remote_signer env g t = io_return t" for t
    using assms by (simp add: remote_signer_def)
  have p: "push_transaction env g trx c =
      io_bind (transaction_assembler env g trx) (\<lambda>t. broadcaster env g t c)"
    by (simp add: push_transaction_def s io_bind_def io_return_def)
  have "filter signing_request
      (snd (io_bind (transaction_assembler env g trx) (\<lambda>t. broadcaster env g t c) es)) =
      filter signing_request es @ []"
    by (rule io_bind_snd_filter) (simp_all add: transaction_assembler_signing broadcaster_signing)
  then show ?thesis
    using p s transaction_assembler_signatures by (auto simp add: io_return_def)
qed

theorem push_transaction_skip_sign_witness:
  "remote_signer demo_env (initial_globals\<lparr>tx_skip_sign := True\<rparr>)
     signed_transaction_default [] = (Inr signed_transaction_default, []) \<and>
   filter signing_request
     (snd (push_transaction demo_env (initial_globals\<lparr>tx_skip_sign := True\<rparr>)
             signed_transaction_default none [])) = []"
proof -
  have t: "tx_skip_sign (initial_globals\<lparr>tx_skip_sign := True\<rparr>)"
    by simp
  note w = push_transaction_skip_sign[OF t, of demo_env signed_transaction_default "[]" none]
  from w have a: "remote_signer demo_env (initial_globals\<lparr>tx_skip_sign := True\<rparr>)
     signed_transaction_default [] = (Inr signed_transaction_default, [])"
    by (rule conjunct1)
  from w have b: "filter signing_request
     (snd (push_transaction demo_env (initial_globals\<lparr>tx_skip_sign := True\<rparr>)
             signed_transaction_default none [])) = filter signing_request []"
    by (elim conjE)
  from a b show ?thesis by simp
qed

text \<open>
  C7, as the code has it. domain create with the three permissions left at default builds
  one action, for the resource type domain and keyed by the name of the domain. Its issue
  and manage permissions have threshold 1 and one authorizer of weight 1, which refers to
  the key of the issuer when that key is not the zero key and to the owner group when it
  is; its transfer permission has one authorizer of weight 1, the owner group. The command
  sends that action alone.
\<close>

theorem domain_create_defaults:
  assumes "sd_issue cmd = ''default''"
    and "sd_transfer cmd = ''default''"
    and "sd_manage cmd = ''default''"
    and "name128_from_string env (sd_name cmd) = Inr n"
    and "public_key_from_string env (sd_issuer cmd) = Inr k"
    and "group_id_from_string env ''owner'' = Inr owner"
    and "issuer_ref = (if k = public_key_type_default then group_ref owner else account_ref k)"
    and "act =
      \<lparr>domain = ''domain'', key = n,
       data = newdomain_data
         \<lparr>nd_name = n, nd_issuer = k,
          nd_issue = \<lparr>name = ''issue'', threshold = 1,
                      authorizers = [\<lparr>ref = issuer_ref, weight = 1\<rparr>]\<rparr>,
          nd_transfer = \<lparr>name = ''transfer'', threshold = 1,
                         authorizers = [\<lparr>ref = group_ref owner, weight = 1\<rparr>]\<rparr>,
          nd_manage = \<lparr>name = ''manage'', threshold = 1,
                       authorizers = [\<lparr>ref = issuer_ref, weight = 1\<rparr>]\<rparr>\<rparr>\<rparr>"
  shows "ndcmd_action env cmd = Inr act \<and>
    ndcmd_callback env g cmd es = send_actions env g [act] none es"
proof -
  have a: "ndcmd_action env cmd = Inr act"
    using assms
    by (simp add: ndcmd_action_def get_default_permission_def result_bind_def
        newdomain_default_def permission_def_default_def authorizer_weight_default_def
        set_account_def set_group_def create_action_def)
  then show ?thesis
    by (simp add: ndcmd_callback_def io_bind_def io_lift_def)
qed

theorem domain_create_defaults_witness:
  "ndcmd_action demo_env
     \<lparr>sd_name = ''mydomain'', sd_issuer = ''PUB1'', sd_issue = ''default'',
      sd_transfer = ''default'', sd_manage = ''default''\<rparr> =
   Inr \<lparr>domain = ''domain'', key = 9,
        data = newdomain_data
          \<lparr>nd_name = 9, nd_issuer = [1],
           nd_issue = \<lparr>name = ''issue'', threshold = 1,
                       authorizers = [\<lparr>ref = account_ref [1], weight = 1\<rparr>]\<rparr>,
           nd_transfer = \<lparr>name = ''transfer'', threshold = 1,
                          authorizers = [\<lparr>ref = group_ref 1, weight = 1\<rparr>]\<rparr>,
           nd_manage = \<lparr>name = ''manage'', threshold = 1,
                        authorizers = [\<lparr>ref = account_ref [1], weight = 1\<rparr>]\<rparr>\<rparr>\<rparr>"
proof -
  let ?cmd = "\<lparr>sd_name = ''mydomain'', sd_issuer = ''PUB1'', sd_issue = ''default'',
      sd_transfer = ''default'', sd_manage = ''default''\<rparr>"
  have n: "name128_from_string demo_env (sd_name ?cmd) = Inr 9"
    by (simp add: demo_env_def)
  have k: "public_key_from_string demo_env (sd_issuer ?cmd) = Inr [1]"
    by (simp add: demo_env_def)
  have o: "group_id_from_string demo_env ''owner'' = Inr 1"
    by (simp add: demo_env_def)
  have r: "account_ref [1] =
      (if [1] = public_key_type_default then group_ref 1 else account_ref [1])"
    using demo_key_not_default by simp
  from domain_create_defaults[of ?cmd demo_env 9 "[1]" 1 "account_ref [1]" _ initial_globals "[]",
      OF _ _ _ n k o r refl]
  show ?thesis by simp
qed

text \<open>
  C7 as the spec states it fails for an issuer whose key is the zero key: the issue and
  manage permissions then refer to the owner group, not to the key of the issuer.
\<close>

theorem domain_create_defaults_counterexample:
  "public_key_from_string demo_env null_key_text = Inr public_key_type_default \<and>
   ndcmd_action demo_env
     \<lparr>sd_name = ''mydomain'', sd_issuer = null_key_text, sd_issue = ''default'',
      sd_transfer = ''default'', sd_manage = ''default''\<rparr> =
   Inr \<lparr>domain = ''domain'', key = 9,
        data = newdomain_data
          \<lparr>nd_name = 9, nd_issuer = public_key_type_default,
           nd_issue = \<lparr>name = ''issue'', threshold = 1,
                       authorizers = [\<lparr>ref = group_ref 1, weight = 1\<rparr>]\<rparr>,
           nd_transfer = \<lparr>name = ''transfer'', threshold = 1,
                          authorizers = [\<lparr>ref = group_ref 1, weight = 1\<rparr>]\<rparr>,
           nd_manage = \<lparr>name = ''manage'', threshold = 1,
                        authorizers = [\<lparr>ref = group_ref 1, weight = 1\<rparr>]\<rparr>\<rparr>\<rparr>"
proof -
  have k: "public_key_from_string demo_env null_key_text = Inr public_key_type_default"
    by (simp add: demo_env_def null_key_text_def)
  have n: "name128_from_string demo_env ''mydomain'' = Inr 9"
    by (simp add: demo_env_def)
  have o: "group_id_from_string demo_env ''owner'' = Inr 1"
    by (simp add: demo_env_def)
  show ?thesis
    by (simp add: k n o ndcmd_action_def get_default_permission_def result_bind_def
        newdomain_default_def permission_def_default_def authorizer_weight_default_def
        set_account_def set_group_def create_action_def)
qed

text \<open>
  C8. group update and get group, given neither an id nor a key, throw the assertion
  Must provide either id or key at once: the log is as it was, so no request has been made.
\<close>

theorem group_commands_missing_identifier:
  "(gg_id c1 = [] \<and> gg_key c1 = [] \<longrightarrow>
      ggcmd_callback env g c1 es =
        (Inl (assert_exception ''Must provide either id or key''), es)) \<and>
   (sg_id c2 = [] \<and> sg_key c2 = [] \<longrightarrow>
      ugcmd_callback env g c2 es =
        (Inl (assert_exception ''Must provide either id or key''), es))"
  by (simp add: ggcmd_callback_def ugcmd_callback_def ugcmd_action_def io_defs)

theorem group_commands_missing_identifier_witness:
  "ggcmd_callback demo_env initial_globals \<lparr>gg_id = [], gg_key = []\<rparr> [] =
     (Inl (assert_exception ''Must provide either id or key''), []) \<and>
   ugcmd_callback demo_env initial_globals \<lparr>sg_id = [], sg_key = [], sg_json = ''{}''\<rparr> [] =
     (Inl (assert_exception ''Must provide either id or key''), [])"
  using group_commands_missing_identifier
    [of "\<lparr>gg_id = [], gg_key = []\<rparr>" demo_env initial_globals "[]"
        "\<lparr>sg_id = [], sg_key = [], sg_json = ''{}''\<rparr>"]
  by simp

text \<open>
  C9. domain update: a permission argument left at default leaves its slot of the update
  unset, and a slot is set exactly for an argument that was given, to the permission parsed
  from it; get_default_permission plays no part. The command sends that action alone.
\<close>

theorem domain_update_default_slots_unset:
  assumes "name128_from_string env (sd_name cmd) = Inr n"
    and "sd_issue cmd \<noteq> ''default'' \<longrightarrow> parse_permission env (sd_issue cmd) = Inr p_issue"
    and "sd_transfer cmd \<noteq> ''default'' \<longrightarrow>
           parse_permission env (sd_transfer cmd) = Inr p_transfer"
    and "sd_manage cmd \<noteq> ''default'' \<longrightarrow> parse_permission env (sd_manage cmd) = Inr p_manage"
    and "act =
      \<lparr>domain = ''domain'', key = n,
       data = updatedomain_data
         \<lparr>ud_name = n,
          ud_issue = (if sd_issue cmd = ''default'' then None else Some p_issue),
          ud_transfer = (if sd_transfer cmd = ''default'' then None else Some p_transfer),
          ud_manage = (if sd_manage cmd = ''default'' then None else Some p_manage)\<rparr>\<rparr>"
  shows "udcmd_action env cmd = Inr act \<and>
    udcmd_callback env g cmd es = send_actions env g [act] none es"
proof -
  have a: "udcmd_action env cmd = Inr act"
    using assms
    by (simp add: udcmd_action_def result_bind_def updatedomain_default_def create_action_def)
  then show ?thesis
    by (simp add: udcmd_callback_def io_bind_def io_lift_def)
qed

theorem domain_update_default_slots_unset_witness:
  "udcmd_action demo_env
     \<lparr>sd_name = ''mydomain'', sd_issuer = [], sd_issue = ''default'', sd_transfer = ''{}'',
      sd_manage = ''default''\<rparr> =
   Inr \<lparr>domain = ''domain'', key = 9,
        data = updatedomain_data
          \<lparr>ud_name = 9, ud_issue = None,
           ud_transfer = Some \<lparr>name = ''parsed'', threshold = 2, authorizers = []\<rparr>,
           ud_manage = None\<rparr>\<rparr> \<and>
   udcmd_callback demo_env (initial_globals\<lparr>tx_skip_sign := True\<rparr>)
     \<lparr>sd_name = ''mydomain'', sd_issuer = [], sd_issue = ''default'', sd_transfer = ''{}'',
      sd_manage = ''default''\<rparr> [] =
     (Inr (),
      [http_request ''http://localhost:8888'' get_info_func null_type,
       http_request ''http://localhost:8888'' get_block_func
         (object_type [(''block_num_or_id'', uint64_type 5)]),
       http_request ''http://localhost:8888'' push_txn_func (string_type ''packed transaction''),
       stdout (''pushed'' @ endl)])"
proof -
  let ?cmd = "\<lparr>sd_name = ''mydomain'', sd_issuer = [], sd_issue = ''default'',
      sd_transfer = ''{}'', sd_manage = ''default''\<rparr>"
  let ?p = "\<lparr>name = ''parsed'', threshold = 2, authorizers = []\<rparr>"
  let ?g = "initial_globals\<lparr>tx_skip_sign := True\<rparr>"
  have n: "name128_from_string demo_env (sd_name ?cmd) = Inr 9"
    by (simp add: demo_env_def)
  have p: "parse_permission demo_env ''{}'' = Inr ?p"
    by (simp add: parse_permission_def json_from_file_or_string_def json_from_string_def
        EVT_RETHROW_EXCEPTIONS_def result_bind_def demo_env_def demo_json_parse_def)
  note w = domain_update_default_slots_unset[of demo_env ?cmd 9 ?p ?p ?p _ ?g "[]", OF n _ _ _ refl]
  from w p have a: "udcmd_action demo_env ?cmd =
     Inr \<lparr>domain = ''domain'', key = 9,
        data = updatedomain_data
          \<lparr>ud_name = 9, ud_issue = None, ud_transfer = Some ?p, ud_manage = None\<rparr>\<rparr>"
    by simp
  from w p have b: "udcmd_callback demo_env ?g ?cmd [] =
     send_actions demo_env ?g
       [\<lparr>domain = ''domain'', key = 9,
         data = updatedomain_data
           \<lparr>ud_name = 9, ud_issue = None, ud_transfer = Some ?p, ud_manage = None\<rparr>\<rparr>]
       none []"
    by simp
  from a b[unfolded demo_push_run] show ?thesis
    by (intro conjI)
qed

text \<open>
  C10. group update and get group, given both an id and a key that parse: the group id
  that is used (printed, sent to the node, put in the action and its key) is the one
  derived from the key, whatever the id argument parsed to.
\<close>

theorem group_commands_key_overrides_id:
  assumes "i \<noteq> []" and "k \<noteq> []"
    and "group_id_from_string env i = Inr gid_i"
    and "public_key_from_string env k = Inr pk"
    and "gid_k = group_id_from_group_key env pk"
    and "es1 = es @ [stdout (''Group id: '' @ group_id_to_base58 env gid_k @ endl)]"
  shows "ggcmd_callback env g \<lparr>gg_id = i, gg_key = k\<rparr> es =
      io_bind
        (call_node env g get_group_func
           (object_type [(''id'', string_type (group_id_to_base58 env gid_k))]))
        (\<lambda>v. print_stdout (to_pretty_string env v @ endl)) es1 \<and>
    (parse_group env j = Inr grp \<longrightarrow>
       ugcmd_callback env g \<lparr>sg_id = i, sg_key = k, sg_json = j\<rparr> es =
         send_actions env g
           [\<lparr>domain = ''group'', key = gid_k,
             data = updategroup_data \<lparr>ug_id = gid_k, ug_group = grp\<rparr>\<rparr>] none es1)"
  using assms
  by (simp add: ggcmd_callback_def ugcmd_callback_def ugcmd_action_def io_defs
      FC_CAPTURE_AND_RETHROW_def updategroup_default_def create_action_def Let_def)

theorem group_commands_key_overrides_id_witness:
  "ggcmd_callback demo_env initial_globals \<lparr>gg_id = ''G77'', gg_key = ''PUB1''\<rparr> [] =
     (Inr (),
      [stdout (''Group id: G101'' @ endl),
       http_request ''http://localhost:8888'' get_group_func
         (object_type [(''id'', string_type ''G101'')]),
       stdout (''group'' @ endl)])"
proof -
  have i: "group_id_from_string demo_env ''G77'' = Inr 77"
    by (simp add: demo_env_def)
  have k: "public_key_from_string demo_env ''PUB1'' = Inr [1]"
    by (simp add: demo_env_def)
  have g: "101 = group_id_from_group_key demo_env [1]"
    by (simp add: demo_env_def)
  have b: "group_id_to_base58 demo_env 101 = ''G101''"
    by (simp add: demo_env_def)
  have h: "http demo_env es ''http://localhost:8888'' get_group_func v = Inr (string_type ''group'')"
    for es v
    by (simp add: demo_env_def demo_http_def)
  have t: "to_pretty_string demo_env (string_type ''group'') = ''group''"
    by (simp add: demo_env_def)
  from group_commands_key_overrides_id
    [of "''G77''" "''PUB1''" demo_env 77 "[1]" 101 _ "[]" initial_globals, OF _ _ i k g refl]
  have "ggcmd_callback demo_env initial_globals \<lparr>gg_id = ''G77'', gg_key = ''PUB1''\<rparr> [] =
      io_bind
        (call_node demo_env initial_globals get_group_func
           (object_type [(''id'', string_type (group_id_to_base58 demo_env 101))]))
        (\<lambda>v. print_stdout (to_pretty_string demo_env v @ endl))
        ([] @ [stdout (''Group id: '' @ group_id_to_base58 demo_env 101 @ endl)])"
    by simp
  then show ?thesis
    by (simp add: b call_node_def call_Inr[OF h] io_defs t initial_globals_def)
qed

end
